theory Spec2Isabelle
  imports Main "HOL-Library.Sublist" "HOL-Library.Multiset" "HOL-Library.Word"
begin

section \<open>The gif.land Discord interaction handler (src/index.ts)\<close>

text \<open>
  The handler is embedded function by function. A JavaScript string is the list of its
  UTF-16 code units, each a 16-bit word, so that lengths, slices and searches count what
  the language counts. An exception is a value \<open>Inl e\<close> of a sum type, a returned value
  is \<open>Inr v\<close>. Everything the handler takes from its platform (the crypto primitives,
  \<open>JSON.parse\<close>, \<open>Math.random\<close>, the Unicode case mapping behind \<open>toLowerCase\<close>, the
  reply of the catalog service) is a field of the record \<open>platform\<close>; every outbound
  HTTP call it makes is an entry of the list of effects it returns.
\<close>

subsection \<open>Strings\<close>

type_synonym ustring = "16 word list"

definition cu :: "char \<Rightarrow> 16 word" where
  \<comment> \<open>the code unit of a character of a literal in the source\<close>
  "cu c = of_nat (of_char c)"

definition str :: "string \<Rightarrow> ustring" where
  \<comment> \<open>a string literal of the source, all of whose characters are ASCII\<close>
  "str s = map cu s"

definition is_space :: "16 word \<Rightarrow> bool" where
  \<comment> \<open>the white space and line terminators of the language: TAB, LF, VT, FF, CR, the
      space separators U+0020, U+00A0, U+1680, U+2000 to U+200A, U+202F, U+205F, U+3000,
      the line and paragraph separators U+2028 and U+2029, and U+FEFF\<close>
  "is_space c =
     (unat c \<in> {0x09, 0x0A, 0x0B, 0x0C, 0x0D, 0x20, 0xA0, 0x1680, 0x2028, 0x2029,
                0x202F, 0x205F, 0x3000, 0xFEFF}
      \<or> (0x2000 \<le> unat c \<and> unat c \<le> 0x200A))"

definition trim :: "ustring \<Rightarrow> ustring" where
  "trim s = rev (dropWhile is_space (rev (dropWhile is_space s)))"

fun includes_str :: "ustring \<Rightarrow> ustring \<Rightarrow> bool" where
  \<comment> \<open>\<open>s.includes(t)\<close>: some position of \<open>s\<close> starts an occurrence of \<open>t\<close>\<close>
  "includes_str [] t = (t = [])"
| "includes_str (c # cs) t = (prefix t (c # cs) \<or> includes_str cs t)"

definition startsWith :: "ustring \<Rightarrow> ustring \<Rightarrow> bool" where
  "startsWith s t = prefix t s"

definition slice_str :: "'a list \<Rightarrow> nat \<Rightarrow> nat \<Rightarrow> 'a list" where
  \<comment> \<open>\<open>s.slice(i, j)\<close> and \<open>s.substring(i, j)\<close> for \<open>0 \<le> i \<le> j\<close>, clamped to the length\<close>
  "slice_str s i j = take (j - i) (drop i s)"

fun split_bars :: "ustring \<Rightarrow> ustring \<Rightarrow> ustring list" where
  \<comment> \<open>\<open>s.split("||")\<close>: the pieces between the occurrences of the separator, found left
      to right without overlap; the first argument is the piece read so far, reversed\<close>
  "split_bars acc [] = [rev acc]"
| "split_bars acc [c] = [rev (c # acc)]"
| "split_bars acc (c # d # ds) =
     (if c = cu CHR ''|'' \<and> d = cu CHR ''|'' then rev acc # split_bars [] ds
      else split_bars (c # acc) (d # ds))"

definition split_str :: "ustring \<Rightarrow> nat \<Rightarrow> ustring list" where
  \<comment> \<open>\<open>s.split("||", limit)\<close>: at most \<open>limit\<close> pieces are kept\<close>
  "split_str s limit = take limit (split_bars [] s)"

function show_nat :: "nat \<Rightarrow> ustring" where
  \<comment> \<open>the decimal text a template literal gives a non-negative integer\<close>
  "show_nat n =
     (if n < 10 then [of_nat (48 + n)] else show_nat (n div 10) @ [of_nat (48 + n mod 10)])"
  by pat_completeness auto
termination
  by (relation "measure id") auto

declare show_nat.simps [simp del]

subsection \<open>Hexadecimal decoding\<close>

definition is_hex_digit :: "16 word \<Rightarrow> bool" where
  "is_hex_digit c =
     (let n = unat c
      in (48 \<le> n \<and> n \<le> 57) \<or> (65 \<le> n \<and> n \<le> 70) \<or> (97 \<le> n \<and> n \<le> 102))"

definition hex_digit_value :: "16 word \<Rightarrow> int" where
  "hex_digit_value c =
     (let n = unat c
      in if n \<le> 57 then int n - 48 else if n \<le> 70 then int n - 55 else int n - 87)"

definition hex_value :: "ustring \<Rightarrow> int" where
  "hex_value z = foldl (\<lambda>v c. 16 * v + hex_digit_value c) 0 z"

definition parseInt16 :: "ustring \<Rightarrow> int option" where
  \<comment> \<open>\<open>parseInt(s, 16)\<close>: leading white space is skipped, then an optional sign, then an
      optional \<open>0x\<close>, then the longest run of hexadecimal digits; \<open>None\<close> is \<open>NaN\<close>\<close>
  "parseInt16 s =
     (let t = dropWhile is_space s;
          neg = (t \<noteq> [] \<and> hd t = cu CHR ''-'');
          u = (if t \<noteq> [] \<and> (hd t = cu CHR ''+'' \<or> hd t = cu CHR ''-'') then tl t else t);
          v = (if prefix (str ''0x'') u \<or> prefix (str ''0X'') u then drop 2 u else u);
          z = takeWhile is_hex_digit v
      in if z = [] then None else Some ((if neg then - 1 else 1) * hex_value z))"

definition to_uint8 :: "int option \<Rightarrow> 8 word" where
  \<comment> \<open>storing a number in a \<open>Uint8Array\<close>: \<open>NaN\<close> is stored as 0, an integer modulo 256\<close>
  "to_uint8 v = (case v of None \<Rightarrow> 0 | Some n \<Rightarrow> word_of_int n)"

function hex_loop :: "ustring \<Rightarrow> nat \<Rightarrow> 8 word list \<Rightarrow> 8 word list" where
  \<comment> \<open>the \<open>for\<close> loop of \<open>hexToUint8Array\<close>; a write past the end of a typed array is
      ignored, as \<open>list_update\<close> ignores it\<close>
  "hex_loop hex i bytes =
     (if i < length hex
      then hex_loop hex (i + 2) (bytes[i div 2 := to_uint8 (parseInt16 (slice_str hex i (i + 2)))])
      else bytes)"
  by pat_completeness auto
termination
  by (relation "measure (\<lambda>(hex, i, bytes). length hex - i)") auto

declare hex_loop.simps [simp del]

definition hexToUint8Array :: "ustring \<Rightarrow> 8 word list" where
  \<comment> \<open>\<open>new Uint8Array(hex.length / 2)\<close> truncates a fractional length\<close>
  "hexToUint8Array hex = hex_loop hex 0 (replicate (length hex div 2) 0)"

subsection \<open>UTF-8 encoding\<close>

definition is_high_surrogate :: "16 word \<Rightarrow> bool" where
  "is_high_surrogate c = (0xD800 \<le> unat c \<and> unat c \<le> 0xDBFF)"

definition is_low_surrogate :: "16 word \<Rightarrow> bool" where
  "is_low_surrogate c = (0xDC00 \<le> unat c \<and> unat c \<le> 0xDFFF)"

definition scalar_of_unit :: "16 word \<Rightarrow> nat" where
  \<comment> \<open>a code unit on its own: a lone surrogate is replaced by U+FFFD\<close>
  "scalar_of_unit c = (if is_high_surrogate c \<or> is_low_surrogate c then 0xFFFD else unat c)"

fun code_points :: "ustring \<Rightarrow> nat list" where
  \<comment> \<open>the code points of a string, a surrogate pair giving one code point\<close>
  "code_points [] = []"
| "code_points [c] = [scalar_of_unit c]"
| "code_points (c # d # cs) =
     (if is_high_surrogate c \<and> is_low_surrogate d
      then (0x10000 + (unat c - 0xD800) * 0x400 + (unat d - 0xDC00)) # code_points cs
      else scalar_of_unit c # code_points (d # cs))"

definition utf8 :: "nat \<Rightarrow> 8 word list" where
  "utf8 cp =
     (if cp < 0x80 then [of_nat cp]
      else if cp < 0x800 then [of_nat (0xC0 + cp div 0x40), of_nat (0x80 + cp mod 0x40)]
      else if cp < 0x10000
        then [of_nat (0xE0 + cp div 0x1000), of_nat (0x80 + cp div 0x40 mod 0x40),
              of_nat (0x80 + cp mod 0x40)]
      else [of_nat (0xF0 + cp div 0x40000), of_nat (0x80 + cp div 0x1000 mod 0x40),
            of_nat (0x80 + cp div 0x40 mod 0x40), of_nat (0x80 + cp mod 0x40)])"

definition text_encode :: "ustring \<Rightarrow> 8 word list" where
  \<comment> \<open>\<open>new TextEncoder().encode(s)\<close>\<close>
  "text_encode s = concat (map utf8 (code_points s))"

subsection \<open>Data model\<close>

datatype js_error =
    TypeError       \<comment> \<open>a property read of \<open>undefined\<close>, or a rejected network call\<close>
  | SyntaxError     \<comment> \<open>text that is not JSON\<close>
  | Error ustring   \<comment> \<open>\<open>new Error(message)\<close>\<close>
  | DataError       \<comment> \<open>key material the crypto library refuses\<close>

record Gif =
  id_gif :: int
  url :: ustring
  tags :: "ustring option"  \<comment> \<open>\<open>None\<close>: the field is missing, \<open>null\<close> or \<open>undefined\<close>\<close>
  width :: int
  height :: int

record Env =
  DISCORD_PUBLIC_KEY :: ustring
  DISCORD_TOKEN :: ustring
  DISCORD_APP_ID :: ustring

definition SITE_URL :: ustring where
  "SITE_URL = str ''https://gif.land''"

definition MAX_GIFS_SHOWN :: nat where
  "MAX_GIFS_SHOWN = 10"

definition PING :: int where "PING = 1"
definition APPLICATION_COMMAND :: int where "APPLICATION_COMMAND = 2"
definition MESSAGE_COMPONENT :: int where "MESSAGE_COMPONENT = 3"

definition PONG :: nat where "PONG = 1"
definition CHANNEL_MESSAGE_WITH_SOURCE :: nat where "CHANNEL_MESSAGE_WITH_SOURCE = 4"
definition UPDATE_MESSAGE :: nat where "UPDATE_MESSAGE = 7"

definition EPHEMERAL :: nat where
  "EPHEMERAL = push_bit 6 1"

record embed =
  title :: ustring
  image_url :: ustring

record button =
  button_type :: nat
  style :: nat
  label :: ustring
  custom_id :: ustring

record action_row =
  row_type :: nat
  row_components :: "button list"

text \<open>A message object; \<open>None\<close> is a key the object does not have.\<close>

record message =
  content :: "ustring option"
  embeds :: "embed list option"
  components :: "action_row list option"
  flags :: "nat option"

record interaction_response =
  response_type :: nat
  response_data :: "message option"

datatype body = Text ustring | Json interaction_response

record response =
  status :: nat
  content_type :: "ustring option"
  body :: body

text \<open>
  The interaction a request body parses to, with the fields the handlers read.
  \<open>interaction_type = None\<close> stands for a \<open>type\<close> that is absent or not an integer.
\<close>

record command_option =
  option_name :: ustring
  option_value :: "ustring option"

record interaction_data =
  options :: "command_option list option"
  data_custom_id :: "ustring option"

record interaction =
  interaction_type :: "int option"
  data :: "interaction_data option"
  token :: ustring

record request =
  request_method :: ustring
  signature_header :: "ustring option"   \<comment> \<open>\<open>X-Signature-Ed25519\<close>\<close>
  timestamp_header :: "ustring option"   \<comment> \<open>\<open>X-Signature-Timestamp\<close>\<close>
  request_text :: ustring

text \<open>
  The reply of the catalog service to \<open>fetch(SITE_URL/api)\<close>: the call is rejected, or
  it resolves to a status and what \<open>res.json()\<close> gives for the body.
\<close>

datatype fetch_outcome =
    Rejected
  | Resolved nat "js_error + Gif list"

text \<open>
  The platform. \<open>Math_random k\<close> is the numerator of the \<open>k\<close>-th number drawn, a
  fraction of \<open>2 ^ 53\<close>, so that every draw lies in \<open>[0, 1)\<close>. \<open>toLowerCase\<close> is
  \<open>String.prototype.toLowerCase\<close>, the lower-case mapping of the Unicode database with
  its context-dependent rules: the handler is embedded for whatever this function is.
\<close>

record 'k platform =
  importKey :: "8 word list \<Rightarrow> js_error + 'k"
  verify :: "'k \<Rightarrow> 8 word list \<Rightarrow> 8 word list \<Rightarrow> js_error + bool"
  JSON_parse :: "ustring \<Rightarrow> js_error + interaction"
  Math_random :: "nat \<Rightarrow> nat"
  toLowerCase :: "ustring \<Rightarrow> ustring"
  catalog :: fetch_outcome

datatype effect =
    CatalogGet ustring            \<comment> \<open>\<open>fetch(url)\<close> of the catalog\<close>
  | FollowupPost ustring message  \<comment> \<open>\<open>ctx.waitUntil(fetch(url, {method: "POST", body}))\<close>\<close>

subsection \<open>Helpers\<close>

definition jsonResponse :: "interaction_response \<Rightarrow> nat \<Rightarrow> response" where
  "jsonResponse b st = \<lparr>status = st, content_type = Some (str ''application/json''), body = Json b\<rparr>"

definition text_response :: "ustring \<Rightarrow> nat \<Rightarrow> response" where
  \<comment> \<open>\<open>new Response(text, { status })\<close>\<close>
  "text_response t st = \<lparr>status = st, content_type = None, body = Text t\<rparr>"

definition response_ok :: "nat \<Rightarrow> bool" where
  \<comment> \<open>\<open>res.ok\<close>\<close>
  "response_ok st = (200 \<le> st \<and> st \<le> 299)"

definition fetchGifs :: "fetch_outcome \<Rightarrow> js_error + Gif list" where
  "fetchGifs out =
     (case out of
        Rejected \<Rightarrow> Inl TypeError
      | Resolved st parsed \<Rightarrow>
          if \<not> response_ok st then Inl (Error (str ''Failed to fetch GIFs: '' @ show_nat st))
          else parsed)"

definition floor_random :: "nat \<Rightarrow> nat \<Rightarrow> nat" where
  \<comment> \<open>\<open>Math.floor(Math.random() * n)\<close> for the draw with numerator \<open>r\<close>\<close>
  "floor_random r n = ((r mod 2 ^ 53) * n) div 2 ^ 53"

fun shuffle_loop :: "nat \<Rightarrow> (nat \<Rightarrow> nat) \<Rightarrow> 'a list \<Rightarrow> 'a list" where
  \<comment> \<open>the loop of \<open>shuffled\<close> from index \<open>i\<close> down to 1; each pass swaps \<open>a[i]\<close> and
      \<open>a[j]\<close> and takes the next draw\<close>
  "shuffle_loop 0 rnd a = a"
| "shuffle_loop (Suc k) rnd a =
     (let i = Suc k;
          j = floor_random (rnd 0) (i + 1)
      in shuffle_loop k (\<lambda>n. rnd (Suc n)) (a[i := a ! j, j := a ! i]))"

definition shuffled :: "(nat \<Rightarrow> nat) \<Rightarrow> 'a list \<Rightarrow> 'a list" where
  \<comment> \<open>the loop starts at \<open>a.length - 1\<close> and runs while \<open>i > 0\<close>: no pass on an empty array\<close>
  "shuffled rnd arr = shuffle_loop (length arr - 1) rnd arr"

definition verifyDiscordSignature ::
  "'k platform \<Rightarrow> ustring \<Rightarrow> ustring \<Rightarrow> ustring \<Rightarrow> ustring \<Rightarrow> js_error + bool" where
  "verifyDiscordSignature pf publicKey signature timestamp text =
     (case importKey pf (hexToUint8Array publicKey) of
        Inl e \<Rightarrow> Inl e
      | Inr key \<Rightarrow>
          verify pf key (hexToUint8Array signature) (text_encode (timestamp @ text)))"

subsection \<open>Messages\<close>

definition gif_title :: "Gif \<Rightarrow> ustring" where
  \<comment> \<open>the template \<open>${gif.url}${gif.tags ? ` | ${gif.tags}` : ""}\<close>; a missing and an
      empty \<open>tags\<close> are both false\<close>
  "gif_title gif =
     url gif @ (case tags gif of None \<Rightarrow> [] | Some t \<Rightarrow> if t \<noteq> [] then str '' | '' @ t else [])"

definition gif_embed :: "Gif \<Rightarrow> embed" where
  "gif_embed gif = \<lparr>title = gif_title gif, image_url = SITE_URL @ str ''/'' @ url gif\<rparr>"

definition encode_custom_id :: "Gif \<Rightarrow> ustring" where
  \<comment> \<open>\<open>`post:${gif.url}||${gif.tags || ""}`.slice(0, 100)\<close>\<close>
  "encode_custom_id gif =
     slice_str (str ''post:'' @ url gif @ str ''||'' @ (case tags gif of None \<Rightarrow> [] | Some t \<Rightarrow> t))
       0 100"

definition gif_button :: "Gif \<Rightarrow> button" where
  "gif_button gif =
     \<lparr>button_type = 2, style = 1,
      label = slice_str (str ''Post: '' @ url gif) 0 80,
      custom_id = encode_custom_id gif\<rparr>"

function row_loop :: "Gif list \<Rightarrow> nat \<Rightarrow> action_row list \<Rightarrow> action_row list" where
  \<comment> \<open>the \<open>for\<close> loop of \<open>buildGifPicker\<close> over \<open>i = 0, 2, 4, ...\<close>\<close>
  "row_loop gifs i actionRows =
     (if i < length gifs
      then row_loop gifs (i + 2)
             (actionRows @
                [\<lparr>row_type = 1, row_components = map gif_button (slice_str gifs i (i + 2))\<rparr>])
      else actionRows)"
  by pat_completeness auto
termination
  by (relation "measure (\<lambda>(gifs, i, actionRows). length gifs - i)") auto

declare row_loop.simps [simp del]

definition em_dash :: ustring where
  \<comment> \<open>the dash U+2014 of the header\<close>
  "em_dash = [0x2014]"

definition headerText :: "nat \<Rightarrow> ustring \<Rightarrow> ustring" where
  \<comment> \<open>the header of \<open>buildGifPicker\<close> for \<open>gifs.length = n\<close>\<close>
  "headerText n query =
     (if n = MAX_GIFS_SHOWN
      then str ''Showing '' @ show_nat MAX_GIFS_SHOWN @ str '' GIFs for **'' @ query @ str ''** '' @ em_dash
             @ str '' try a more specific search to narrow results.''
      else str ''Found '' @ show_nat n @ str '' GIF'' @ (if n = 1 then [] else str ''s'')
             @ str '' for **'' @ query @ str ''**'')"

definition buildGifPicker :: "Gif list \<Rightarrow> ustring \<Rightarrow> message" where
  "buildGifPicker gifs query =
     \<lparr>content = Some (headerText (length gifs) query),
      embeds = Some (map gif_embed gifs),
      components = Some (row_loop gifs 0 []),
      flags = Some EPHEMERAL\<rparr>"

definition buildSingleGifMessage :: "Gif option \<Rightarrow> js_error + message" where
  \<comment> \<open>the argument is \<open>None\<close> when the caller passes \<open>undefined\<close>: reading \<open>gif.url\<close>
      raises\<close>
  "buildSingleGifMessage g =
     (case g of
        None \<Rightarrow> Inl TypeError
      | Some gif \<Rightarrow>
          Inr \<lparr>content = None, embeds = Some [gif_embed gif], components = None, flags = None\<rparr>)"

subsection \<open>Interaction handlers\<close>

definition handlePing :: response where
  "handlePing = jsonResponse \<lparr>response_type = PONG, response_data = None\<rparr> 200"

definition array_index :: "'a list \<Rightarrow> nat \<Rightarrow> 'a option" where
  \<comment> \<open>\<open>xs[i]\<close>: \<open>undefined\<close> past the end\<close>
  "array_index xs i = (if i < length xs then Some (xs ! i) else None)"

definition search_query :: "interaction \<Rightarrow> ustring" where
  \<comment> \<open>the first lines of \<open>handleSlashCommand\<close>: the trimmed value of the option named
      \<open>search\<close>, or the empty string\<close>
  "search_query i =
     (let opts = (case data i of None \<Rightarrow> []
                  | Some d \<Rightarrow> (case options d of None \<Rightarrow> [] | Some os \<Rightarrow> os));
          searchOption = find (\<lambda>opt. option_name opt = str ''search'') opts
      in trim (case searchOption of None \<Rightarrow> []
               | Some opt \<Rightarrow> (case option_value opt of None \<Rightarrow> [] | Some v \<Rightarrow> v)))"

definition matches_query :: "'k platform \<Rightarrow> ustring \<Rightarrow> Gif \<Rightarrow> bool" where
  \<comment> \<open>the predicate of the filter: \<open>g.tags?.toLowerCase().includes(lowerQuery) ||
      g.url.toLowerCase().includes(lowerQuery)\<close>\<close>
  "matches_query pf lowerQuery g =
     ((case tags g of None \<Rightarrow> False
       | Some t \<Rightarrow> includes_str (toLowerCase pf t) lowerQuery)
      \<or> includes_str (toLowerCase pf (url g)) lowerQuery)"

definition catalog_error_message :: message where
  "catalog_error_message =
     \<lparr>content = Some (str ''Could not reach gif.land right now. Try again in a moment.''),
      embeds = None, components = None, flags = Some EPHEMERAL\<rparr>"

definition quote :: ustring where
  \<comment> \<open>the double quote U+0022\<close>
  "quote = [0x22]"

definition no_results_message :: "ustring \<Rightarrow> message" where
  "no_results_message query =
     \<lparr>content = Some (str ''No GIFs found for '' @ quote @ query
                       @ quote @ str ''. Try a different search.''),
      embeds = None, components = None, flags = Some EPHEMERAL\<rparr>"

definition channel_message :: "message \<Rightarrow> response" where
  "channel_message m =
     jsonResponse \<lparr>response_type = CHANNEL_MESSAGE_WITH_SOURCE, response_data = Some m\<rparr> 200"

definition handleSlashCommand ::
  "'k platform \<Rightarrow> interaction \<Rightarrow> (js_error + response) \<times> effect list" where
  "handleSlashCommand pf i =
     (let query = search_query i;
          effects = [CatalogGet (SITE_URL @ str ''/api'')]
      in case fetchGifs (catalog pf) of
           Inl e \<Rightarrow> (Inr (channel_message catalog_error_message), effects)
         | Inr allGifs \<Rightarrow>
             if query = [] then
               (case buildSingleGifMessage
                       (array_index allGifs
                          (floor_random (Math_random pf 0) (length allGifs))) of
                  Inl e \<Rightarrow> (Inl e, effects)
                | Inr m \<Rightarrow> (Inr (channel_message m), effects))
             else
               (let lowerQuery = toLowerCase pf query;
                    matches = filter (matches_query pf lowerQuery) allGifs
                in if length matches = 0
                   then (Inr (channel_message (no_results_message query)), effects)
                   else
                     (let shown = slice_str (shuffled (Math_random pf) matches) 0 MAX_GIFS_SHOWN
                      in (Inr (channel_message (buildGifPicker shown query)), effects))))"

definition decode_payload :: "ustring \<Rightarrow> ustring \<times> ustring" where
  \<comment> \<open>\<open>const [gifFilename, tags = ""] = payload.split("||", 2)\<close>; the split always has a
      first piece\<close>
  "decode_payload payload =
     (case split_str payload 2 of
        [] \<Rightarrow> ([], [])
      | [a] \<Rightarrow> (a, [])
      | a # b # _ \<Rightarrow> (a, b))"

definition unknown_action_message :: message where
  "unknown_action_message =
     \<lparr>content = Some (str ''Unknown action.''), embeds = Some [], components = Some [], flags = None\<rparr>"

definition clicked_custom_id :: "interaction \<Rightarrow> ustring" where
  \<comment> \<open>\<open>interaction.data?.custom_id ?? ""\<close>\<close>
  "clicked_custom_id i =
     (case data i of None \<Rightarrow> []
      | Some d \<Rightarrow> (case data_custom_id d of None \<Rightarrow> [] | Some c \<Rightarrow> c))"

definition handleButtonClick ::
  "'k platform \<Rightarrow> interaction \<Rightarrow> Env \<Rightarrow> (js_error + response) \<times> effect list" where
  "handleButtonClick pf i env =
     (let customId = clicked_custom_id i
      in if \<not> startsWith customId (str ''post:'')
         then (Inr (jsonResponse
                      \<lparr>response_type = UPDATE_MESSAGE,
                       response_data = Some unknown_action_message\<rparr> 200), [])
         else
           (let payload = drop (length (str ''post:'')) customId;
                (gifFilename, tgs) = decode_payload payload;
                gif = \<lparr>id_gif = 0, url = gifFilename, tags = Some tgs, width = 0, height = 0\<rparr>;
                confirmResponse =
                  jsonResponse
                    \<lparr>response_type = UPDATE_MESSAGE,
                     response_data =
                       Some \<lparr>content = Some (str ''Posted **'' @ gifFilename @ str ''**''),
                             embeds = Some [], components = Some [], flags = None\<rparr>\<rparr> 200
            in case buildSingleGifMessage (Some gif) of
                 Inl e \<Rightarrow> (Inl e, [])
               | Inr m \<Rightarrow>
                   (Inr confirmResponse,
                    [FollowupPost
                       (str ''https://discord.com/api/v10/webhooks/'' @ DISCORD_APP_ID env
                          @ str ''/'' @ token i) m])))"

subsection \<open>Main handler\<close>

definition header_or_empty :: "ustring option \<Rightarrow> ustring" where
  \<comment> \<open>\<open>request.headers.get(name) ?? ""\<close>\<close>
  "header_or_empty h = (case h of None \<Rightarrow> [] | Some s \<Rightarrow> s)"

definition fetch :: "'k platform \<Rightarrow> Env \<Rightarrow> request \<Rightarrow> (js_error + response) \<times> effect list" where
  "fetch pf env req =
     (if request_method req \<noteq> str ''POST'' then (Inr (text_response (str ''Not found'') 404), [])
      else
        (let signature = header_or_empty (signature_header req);
             timestamp = header_or_empty (timestamp_header req);
             text = request_text req
         in case verifyDiscordSignature pf (DISCORD_PUBLIC_KEY env) signature timestamp text of
              Inl e \<Rightarrow> (Inl e, [])
            | Inr valid \<Rightarrow>
                if \<not> valid then (Inr (text_response (str ''Invalid signature'') 401), [])
                else
                  (case JSON_parse pf text of
                     Inl e \<Rightarrow> (Inl e, [])
                   | Inr interaction \<Rightarrow>
                       if interaction_type interaction = Some PING
                         then (Inr handlePing, [])
                       else if interaction_type interaction = Some APPLICATION_COMMAND
                         then handleSlashCommand pf interaction
                       else if interaction_type interaction = Some MESSAGE_COMPONENT
                         then handleButtonClick pf interaction env
                       else (Inr (text_response (str ''Unknown interaction type'') 400), []))))"

subsection \<open>Notions used to state the properties\<close>

text \<open>
  ASCII text, and what \<open>toLowerCase\<close> is known to do on it: the letters \<open>A\<close> to \<open>Z\<close>
  become \<open>a\<close> to \<open>z\<close> and every other character stays. A platform function \<open>f\<close>
  satisfies \<open>lowers_ascii f\<close> when it does so.
\<close>

definition is_ascii :: "ustring \<Rightarrow> bool" where
  "is_ascii s = list_all (\<lambda>c. unat c < 128) s"

definition is_upper :: "16 word \<Rightarrow> bool" where
  "is_upper c = (0x41 \<le> unat c \<and> unat c \<le> 0x5A)"

definition ascii_lower :: "16 word \<Rightarrow> 16 word" where
  "ascii_lower c = (if is_upper c then c + 32 else c)"

definition lowers_ascii :: "(ustring \<Rightarrow> ustring) \<Rightarrow> bool" where
  "lowers_ascii f = (\<forall>s. is_ascii s \<longrightarrow> f s = map ascii_lower s)"

text \<open>
  Case-insensitive containment, said without any lower-casing: two code units are the
  same letter when they are equal or are the capital and the small form of one of the
  letters \<open>A\<close> to \<open>Z\<close>; a field contains a search word when, at some position of the
  field, the word can be read off letter by letter. An item matches a search word when
  its tag string, if it has one, or its url contains the word.
\<close>

definition same_letter :: "16 word \<Rightarrow> 16 word \<Rightarrow> bool" where
  "same_letter a b = (a = b \<or> (is_upper a \<and> b = a + 32) \<or> (is_upper b \<and> a = b + 32))"

fun reads_at :: "ustring \<Rightarrow> ustring \<Rightarrow> bool" where
  \<comment> \<open>\<open>reads_at qry s\<close>: the word \<open>qry\<close> can be read at the start of \<open>s\<close>\<close>
  "reads_at [] s = True"
| "reads_at (q # qs) [] = False"
| "reads_at (q # qs) (c # cs) = (same_letter q c \<and> reads_at qs cs)"

fun contains_ci :: "ustring \<Rightarrow> ustring \<Rightarrow> bool" where
  "contains_ci [] qry = (qry = [])"
| "contains_ci (c # cs) qry = (reads_at qry (c # cs) \<or> contains_ci cs qry)"

definition spec_match :: "ustring \<Rightarrow> Gif \<Rightarrow> bool" where
  "spec_match qry g =
     ((case tags g of None \<Rightarrow> False | Some t \<Rightarrow> contains_ci t qry) \<or> contains_ci (url g) qry)"

text \<open>
  A well-formed hexadecimal encoding has an even number of characters, all of them
  hexadecimal digits.
\<close>

definition well_formed_hex :: "ustring \<Rightarrow> bool" where
  "well_formed_hex s = (even (length s) \<and> list_all is_hex_digit s)"

text \<open>The message of a JSON reply, if the handler returned one.\<close>

definition reply_message :: "js_error + response \<Rightarrow> message option" where
  "reply_message res =
     (case res of Inl e \<Rightarrow> None
      | Inr r \<Rightarrow> (case body r of Text t \<Rightarrow> None | Json j \<Rightarrow> response_data j))"

subsection \<open>Example inputs\<close>

text \<open>
  Concrete platforms and requests on which the handler is run below. The key import
  accepts 32 bytes only, as Web Crypto does for a raw Ed25519 key (it throws a
  \<open>DataError\<close> for any other length); the two verifications are stand-ins that accept
  nothing and everything. The lower-casing is a stand-in that does what
  \<open>String.prototype.toLowerCase\<close> does on ASCII text and on the two Greek words used
  below: \<open>U+0391 U+03A3\<close> (capital alpha, capital sigma) becomes \<open>U+03B1 U+03C2\<close>, with
  the final form of the small sigma, and \<open>U+03A3\<close> alone becomes \<open>U+03C3\<close>.
\<close>

definition raw_key_import :: "8 word list \<Rightarrow> js_error + 8 word list" where
  "raw_key_import bytes = (if length bytes = 32 then Inr bytes else Inl DataError)"

definition verify_none :: "8 word list \<Rightarrow> 8 word list \<Rightarrow> 8 word list \<Rightarrow> js_error + bool" where
  "verify_none key sg msg = Inr False"

definition verify_all :: "8 word list \<Rightarrow> 8 word list \<Rightarrow> 8 word list \<Rightarrow> js_error + bool" where
  "verify_all key sg msg = Inr True"

definition parse_fails :: "ustring \<Rightarrow> js_error + interaction" where
  "parse_fails s = Inl SyntaxError"

definition parse_as :: "interaction \<Rightarrow> ustring \<Rightarrow> js_error + interaction" where
  "parse_as i s = Inr i"

definition first_draws :: "nat \<Rightarrow> nat" where
  "first_draws k = 0"

definition example_lower :: "ustring \<Rightarrow> ustring" where
  "example_lower s =
     (if s = [0x391, 0x3A3] then [0x3B1, 0x3C2]
      else if s = [0x3A3] then [0x3C3]
      else map ascii_lower s)"

definition example_platform ::
  "(8 word list \<Rightarrow> 8 word list \<Rightarrow> 8 word list \<Rightarrow> js_error + bool)
   \<Rightarrow> (ustring \<Rightarrow> js_error + interaction) \<Rightarrow> fetch_outcome \<Rightarrow> 8 word list platform" where
  "example_platform v p c =
     \<lparr>importKey = raw_key_import, verify = v, JSON_parse = p,
      Math_random = first_draws, toLowerCase = example_lower, catalog = c\<rparr>"

definition gif_of :: "ustring \<Rightarrow> ustring option \<Rightarrow> Gif" where
  "gif_of u t = \<lparr>id_gif = 1, url = u, tags = t, width = 320, height = 240\<rparr>"

definition example_gif :: "string \<Rightarrow> string option \<Rightarrow> Gif" where
  "example_gif u t = gif_of (str u) (map_option str t)"

definition numbered_gifs :: "nat \<Rightarrow> Gif list" where
  "numbered_gifs n = map (\<lambda>k. gif_of (str ''cat'' @ show_nat k @ str ''.gif'') None) [0..<n]"

definition search_for :: "ustring option \<Rightarrow> interaction" where
  "search_for v =
     \<lparr>interaction_type = Some APPLICATION_COMMAND,
      data = Some \<lparr>options = Some [\<lparr>option_name = str ''search'', option_value = v\<rparr>],
                   data_custom_id = None\<rparr>,
      token = str ''tok''\<rparr>"

definition search_command :: "string option \<Rightarrow> interaction" where
  "search_command v = search_for (map_option str v)"

definition plain_command :: interaction where
  "plain_command =
     \<lparr>interaction_type = Some APPLICATION_COMMAND, data = None, token = str ''tok''\<rparr>"

definition button_click :: "ustring \<Rightarrow> interaction" where
  "button_click c =
     \<lparr>interaction_type = Some MESSAGE_COMPONENT,
      data = Some \<lparr>options = None, data_custom_id = Some c\<rparr>,
      token = str ''tok''\<rparr>"

definition example_env :: "string \<Rightarrow> Env" where
  "example_env pk =
     \<lparr>DISCORD_PUBLIC_KEY = str pk, DISCORD_TOKEN = str ''bot'', DISCORD_APP_ID = str ''app''\<rparr>"

definition good_key :: string where
  "good_key = replicate 64 (CHR ''a'')"

definition example_request :: "string \<Rightarrow> string \<Rightarrow> request" where
  "example_request m sg =
     \<lparr>request_method = str m, signature_header = Some (str sg),
      timestamp_header = Some (str ''17''), request_text = str ''{}''\<rparr>"

definition sigma_tags :: ustring where
  \<comment> \<open>the two code units \<open>U+0391 U+03A3\<close>\<close>
  "sigma_tags = [0x391, 0x3A3]"

definition sigma_word :: ustring where
  \<comment> \<open>the one code unit \<open>U+03A3\<close>\<close>
  "sigma_word = [0x3A3]"

section \<open>Properties\<close>

subsection \<open>Auxiliary facts\<close>

lemma length_hex_loop: "length (hex_loop hex i bytes) = length bytes"
proof (induction hex i bytes rule: hex_loop.induct)
  case (1 hex i bytes)
  show ?case
  proof (cases "i < length hex")
    case True
    with "1" show ?thesis by (subst hex_loop.simps) simp
  next
    case False
    then show ?thesis by (subst hex_loop.simps) simp
  qed
qed

lemma length_hexToUint8Array: "length (hexToUint8Array hex) = length hex div 2"
  by (simp add: hexToUint8Array_def length_hex_loop)

lemma verify_ignores_rest:
  "verifyDiscordSignature
     (pf\<lparr>JSON_parse := p, Math_random := r, toLowerCase := l, catalog := c\<rparr>) k s t b =
   verifyDiscordSignature pf k s t b"
  by (simp add: verifyDiscordSignature_def split: sum.splits)

lemma good_key_imports:
  "importKey (example_platform v p c) (hexToUint8Array (str good_key)) =
     Inr (hexToUint8Array (str good_key))"
  by (simp add: example_platform_def raw_key_import_def length_hexToUint8Array good_key_def
      str_def)

lemma verify_example_none:
  "verifyDiscordSignature (example_platform verify_none p c) (str good_key) s t b = Inr False"
  by (simp add: verifyDiscordSignature_def good_key_imports) (simp add: example_platform_def verify_none_def)

lemma verify_example_all:
  "verifyDiscordSignature (example_platform verify_all p c) (str good_key) s t b = Inr True"
  by (simp add: verifyDiscordSignature_def good_key_imports) (simp add: example_platform_def verify_all_def)

lemma floor_random_zero: "floor_random r 0 = 0"
  by (simp add: floor_random_def)

lemma random_pick_empty:
  assumes "search_query i = []" and "fetchGifs (catalog pf) = Inr []"
  shows "handleSlashCommand pf i = (Inl TypeError, [CatalogGet (str ''https://gif.land/api'')])"
  using assms
  by (simp add: handleSlashCommand_def floor_random_zero array_index_def
      buildSingleGifMessage_def SITE_URL_def str_def)

lemma fetchGifs_example_ok:
  "fetchGifs (catalog (example_platform v p (Resolved 200 parsed))) = parsed"
  by (simp add: example_platform_def fetchGifs_def response_ok_def)

lemma floor_random_less: "0 < n \<Longrightarrow> floor_random r n < n"
proof -
  assume n: "0 < n"
  have "r mod 2 ^ 53 < (2 ^ 53 :: nat)" by simp
  then have "(r mod 2 ^ 53) * n < 2 ^ 53 * n" using n by simp
  then have "(r mod 2 ^ 53) * n < n * 2 ^ 53" by (simp add: mult.commute)
  then show ?thesis
    unfolding floor_random_def by (simp add: less_mult_imp_div_less)
qed

lemma mset_shuffle_loop: "k < length a \<or> k = 0 \<Longrightarrow> mset (shuffle_loop k rnd a) = mset a"
proof (induction k arbitrary: rnd a)
  case 0
  show ?case by simp
next
  case (Suc k)
  then have i: "Suc k < length a" by simp
  have "floor_random (rnd 0) (Suc k + 1) < Suc k + 1"
    by (rule floor_random_less) simp
  then have j: "floor_random (rnd 0) (Suc k + 1) < length a" using i by simp
  let ?a = "a[Suc k := a ! floor_random (rnd 0) (Suc k + 1),
              floor_random (rnd 0) (Suc k + 1) := a ! Suc k]"
  have "mset ?a = mset a" by (rule mset_swap [OF j i])
  moreover have "mset (shuffle_loop k (\<lambda>n. rnd (Suc n)) ?a) = mset ?a"
    by (rule Suc.IH) (use i in simp)
  ultimately show ?case by (simp add: Let_def)
qed

lemma mset_shuffled: "mset (shuffled rnd xs) = mset xs"
  unfolding shuffled_def by (rule mset_shuffle_loop) (cases xs; simp)

lemma length_shuffled: "length (shuffled rnd xs) = length xs"
  by (metis mset_shuffled size_mset)

lemma row_loop_append: "row_loop gifs i rows = rows @ row_loop gifs i []"
proof (induction "length gifs - i" arbitrary: i rows rule: less_induct)
  case less
  show ?case
  proof (cases "i < length gifs")
    case True
    let ?row = "\<lparr>row_type = 1, row_components = map gif_button (slice_str gifs i (i + 2))\<rparr>"
    have m: "length gifs - (i + 2) < length gifs - i" using True by arith
    have "row_loop gifs i rows = row_loop gifs (i + 2) (rows @ [?row])"
      using True by (subst row_loop.simps) simp
    also have "\<dots> = (rows @ [?row]) @ row_loop gifs (i + 2) []"
      by (rule less [OF m])
    finally have a: "row_loop gifs i rows = rows @ ?row # row_loop gifs (i + 2) []"
      by simp
    have "row_loop gifs i [] = row_loop gifs (i + 2) ([] @ [?row])"
      using True by (subst row_loop.simps) simp
    also have "\<dots> = ([] @ [?row]) @ row_loop gifs (i + 2) []"
      by (rule less [OF m])
    finally have b: "row_loop gifs i [] = ?row # row_loop gifs (i + 2) []" by simp
    from a b show ?thesis by simp
  next
    case False
    then show ?thesis by (subst row_loop.simps, subst (2) row_loop.simps) simp
  qed
qed

lemma row_loop_step:
  "i < length gifs \<Longrightarrow>
   row_loop gifs i [] =
     \<lparr>row_type = 1, row_components = map gif_button (slice_str gifs i (i + 2))\<rparr>
       # row_loop gifs (i + 2) []"
  by (subst row_loop.simps, subst row_loop_append) simp

lemma row_loop_done: "\<not> i < length gifs \<Longrightarrow> row_loop gifs i [] = []"
  by (subst row_loop.simps) simp

lemma row_loop_rows:
  "length (row_loop gifs i []) = (length gifs - i + 1) div 2
   \<and> (\<forall>row \<in> set (row_loop gifs i []).
         row_type row = 1 \<and> row_components row \<noteq> [] \<and> length (row_components row) \<le> 2)
   \<and> concat (map row_components (row_loop gifs i [])) = map gif_button (drop i gifs)"
proof (induction "length gifs - i" arbitrary: i rule: less_induct)
  case less
  show ?case
  proof (cases "i < length gifs")
    case True
    have m: "length gifs - (i + 2) < length gifs - i" using True by arith
    note IH = less [OF m]
    let ?row = "\<lparr>row_type = 1, row_components = map gif_button (slice_str gifs i (i + 2))\<rparr>"
    have step: "row_loop gifs i [] = ?row # row_loop gifs (i + 2) []"
      by (rule row_loop_step [OF True])
    have d: "drop i gifs = take 2 (drop i gifs) @ drop (i + 2) gifs"
      by (metis add.commute append_take_drop_id drop_drop)
    have ne: "take 2 (drop i gifs) \<noteq> []" using True by simp
    have len: "(length gifs - i + 1) div 2 = Suc ((length gifs - (i + 2) + 1) div 2)"
      using True by arith
    have "length (row_loop gifs i []) = Suc (length (row_loop gifs (i + 2) []))"
      by (simp add: step)
    also have "\<dots> = Suc ((length gifs - (i + 2) + 1) div 2)"
      using IH by simp
    finally have c1: "length (row_loop gifs i []) = (length gifs - i + 1) div 2"
      using len by simp
    have c2: "\<forall>row \<in> set (row_loop gifs i []).
         row_type row = 1 \<and> row_components row \<noteq> [] \<and> length (row_components row) \<le> 2"
      using IH ne by (simp add: step slice_str_def)
    have "concat (map row_components (row_loop gifs i [])) =
          map gif_button (take 2 (drop i gifs)) @ map gif_button (drop (i + 2) gifs)"
      using IH by (simp add: step slice_str_def)
    also have "\<dots> = map gif_button (take 2 (drop i gifs) @ drop (i + 2) gifs)"
      by simp
    also have "\<dots> = map gif_button (drop i gifs)"
      using d by simp
    finally show ?thesis using c1 c2 by blast
  next
    case False
    then show ?thesis by (simp add: row_loop_done)
  qed
qed

lemma includes_str_sublist: "includes_str s t \<longleftrightarrow> sublist t s"
  by (induction s) (simp_all add: sublist_Cons_right)

lemma str_append: "str (a @ b) = str a @ str b"
  by (simp add: str_def)

lemma unat_upper_plus: "is_upper a \<Longrightarrow> unat (a + 32) = unat a + 32"
  by (simp add: is_upper_def unat_word_ariths)

lemma upper_plus_not_upper: "is_upper a \<Longrightarrow> \<not> is_upper (a + 32)"
  using unat_upper_plus [of a] by (simp add: is_upper_def)

lemma same_letter_lower: "same_letter a b \<longleftrightarrow> ascii_lower a = ascii_lower b"
proof (cases "is_upper a"; cases "is_upper b")
  assume "is_upper a" "is_upper b"
  then show ?thesis by (auto simp: same_letter_def ascii_lower_def upper_plus_not_upper)
next
  assume "is_upper a" "\<not> is_upper b"
  then show ?thesis by (auto simp: same_letter_def ascii_lower_def upper_plus_not_upper)
next
  assume "\<not> is_upper a" "is_upper b"
  then show ?thesis by (auto simp: same_letter_def ascii_lower_def upper_plus_not_upper)
next
  assume "\<not> is_upper a" "\<not> is_upper b"
  then show ?thesis by (auto simp: same_letter_def ascii_lower_def)
qed

lemma reads_at_prefix: "reads_at qry s \<longleftrightarrow> prefix (map ascii_lower qry) (map ascii_lower s)"
  by (induction qry s rule: reads_at.induct) (simp_all add: same_letter_lower)

lemma contains_ci_includes:
  "contains_ci field qry \<longleftrightarrow> includes_str (map ascii_lower field) (map ascii_lower qry)"
  by (induction field) (simp_all add: reads_at_prefix)

lemma reads_at_all2: "reads_at qry s \<longleftrightarrow> (\<exists>w ss. s = w @ ss \<and> list_all2 same_letter qry w)"
proof (induction qry s rule: reads_at.induct)
  case (1 s)
  show ?case by simp
next
  case (2 q qs)
  show ?case by simp
next
  case (3 q qs c cs)
  show ?case
  proof
    assume "reads_at (q # qs) (c # cs)"
    with 3 obtain w ss where "cs = w @ ss" "list_all2 same_letter qs w" "same_letter q c"
      by auto
    then have "c # cs = (c # w) @ ss \<and> list_all2 same_letter (q # qs) (c # w)" by simp
    then show "\<exists>w ss. c # cs = w @ ss \<and> list_all2 same_letter (q # qs) w" by blast
  next
    assume "\<exists>w ss. c # cs = w @ ss \<and> list_all2 same_letter (q # qs) w"
    then obtain w ss where a: "c # cs = w @ ss" and b: "list_all2 same_letter (q # qs) w"
      by blast
    from b obtain d w' where w: "w = d # w'" and "same_letter q d" "list_all2 same_letter qs w'"
      by (auto simp: list_all2_Cons1)
    with a 3 show "reads_at (q # qs) (c # cs)" by auto
  qed
qed

lemma contains_ci_occurrence:
  "contains_ci field qry \<longleftrightarrow>
     (\<exists>ps w ss. field = ps @ w @ ss \<and> list_all2 same_letter qry w)"
proof (induction field)
  case Nil
  show ?case by (auto simp: list_all2_Nil2)
next
  case (Cons c cs)
  show ?case
  proof
    assume "contains_ci (c # cs) qry"
    then consider "reads_at qry (c # cs)" | "contains_ci cs qry" by auto
    then show "\<exists>ps w ss. c # cs = ps @ w @ ss \<and> list_all2 same_letter qry w"
    proof cases
      case 1
      then obtain w ss where "c # cs = w @ ss" "list_all2 same_letter qry w"
        by (auto simp: reads_at_all2)
      then have "c # cs = [] @ w @ ss \<and> list_all2 same_letter qry w" by simp
      then show ?thesis by blast
    next
      case 2
      with Cons obtain ps w ss where "cs = ps @ w @ ss" "list_all2 same_letter qry w" by blast
      then have "c # cs = (c # ps) @ w @ ss \<and> list_all2 same_letter qry w" by simp
      then show ?thesis by blast
    qed
  next
    assume "\<exists>ps w ss. c # cs = ps @ w @ ss \<and> list_all2 same_letter qry w"
    then obtain ps w ss where a: "c # cs = ps @ w @ ss" and b: "list_all2 same_letter qry w"
      by blast
    show "contains_ci (c # cs) qry"
    proof (cases ps)
      case Nil
      with a b have "reads_at qry (c # cs)" by (auto simp: reads_at_all2)
      then show ?thesis by simp
    next
      case (Cons p ps')
      with a have "cs = ps' @ w @ ss" by simp
      with b Cons.IH have "contains_ci cs qry" by blast
      then show ?thesis by simp
    qed
  qed
qed

lemma is_ascii_lowered:
  "lowers_ascii f \<Longrightarrow> is_ascii s \<Longrightarrow> f s = map ascii_lower s"
  by (simp add: lowers_ascii_def)

lemma matches_query_spec:
  assumes "lowers_ascii (toLowerCase pf)" and "is_ascii qry" and "is_ascii (url g)"
    and "case tags g of None \<Rightarrow> True | Some t \<Rightarrow> is_ascii t"
  shows "matches_query pf (toLowerCase pf qry) g = spec_match qry g"
  using assms
  by (simp add: matches_query_def spec_match_def contains_ci_includes is_ascii_lowered
      split: option.splits)

lemma search_path:
  assumes "search_query i = q" and "q \<noteq> []" and "fetchGifs (catalog pf) = Inr gifs"
  shows "handleSlashCommand pf i =
           (if filter (matches_query pf (toLowerCase pf q)) gifs = []
            then (Inr (channel_message (no_results_message q)),
                  [CatalogGet (str ''https://gif.land/api'')])
            else (Inr (channel_message
                         (buildGifPicker
                            (take 10 (shuffled (Math_random pf)
                                        (filter (matches_query pf (toLowerCase pf q)) gifs))) q)),
                  [CatalogGet (str ''https://gif.land/api'')]))"
  using assms
  by (simp add: handleSlashCommand_def Let_def SITE_URL_def slice_str_def MAX_GIFS_SHOWN_def
      str_def)

lemma show_nat_10: "show_nat 10 = str ''10''"
  by (simp add: show_nat.simps str_def cu_def)

lemma show_nat_3: "show_nat 3 = str ''3''"
  by (simp add: show_nat.simps str_def cu_def)

lemma mset_take_subset: "mset (take n xs) \<subseteq># mset xs"
proof -
  have "mset xs = mset (take n xs) + mset (drop n xs)"
    by (metis append_take_drop_id mset_append)
  then show ?thesis by (simp add: mset_subset_eq_exists_conv)
qed

lemma example_lower_ascii: "lowers_ascii example_lower"
proof -
  have "\<not> is_ascii [0x391, 0x3A3]" "\<not> is_ascii [0x3A3]"
    by (simp_all add: is_ascii_def)
  then show ?thesis
    by (auto simp: lowers_ascii_def example_lower_def)
qed

lemma example_platform_lowers: "lowers_ascii (toLowerCase (example_platform v p c))"
  by (simp add: example_platform_def example_lower_ascii)

lemma search_query_example: "search_query (search_command (Some v)) = trim (str v)"
  by (simp add: search_query_def search_command_def search_for_def)

lemma trim_cat: "trim (str ''cat'') = str ''cat''"
  by (simp add: trim_def is_space_def str_def cu_def)

lemma example_lower_cat: "example_lower (str ''cat'' @ s) = str ''cat'' @ map ascii_lower s"
  by (simp add: example_lower_def str_def cu_def ascii_lower_def is_upper_def)

lemma lower_cat: "toLowerCase (example_platform v p c) (str ''cat'') = str ''cat''"
  using example_lower_cat [of "[]"] by (simp add: example_platform_def)

lemma length_numbered_gifs: "length (numbered_gifs n) = n"
  by (simp add: numbered_gifs_def)

lemma numbered_gifs_match:
  "filter (matches_query (example_platform v p c) (str ''cat'')) (numbered_gifs n) =
   numbered_gifs n"
proof -
  have "matches_query (example_platform v p c) (str ''cat'') (gif_of (str ''cat'' @ s) None)"
    for s
    by (simp add: matches_query_def gif_of_def example_platform_def example_lower_cat)
       (simp add: str_def)
  then show ?thesis
    by (simp add: numbered_gifs_def filter_id_conv)
qed

lemma numbered_gifs_nonempty: "0 < n \<Longrightarrow> numbered_gifs n \<noteq> []"
  by (simp add: numbered_gifs_def)

lemma example_search_facts:
  "search_query (search_command (Some ''cat'')) = str ''cat''"
  "fetchGifs (catalog (example_platform v p (Resolved 200 (Inr (numbered_gifs n))))) =
     Inr (numbered_gifs n)"
  "filter (matches_query (example_platform v p c)
             (toLowerCase (example_platform v p c) (str ''cat''))) (numbered_gifs n) =
     numbered_gifs n"
  by (simp_all add: search_query_example trim_cat fetchGifs_example_ok lower_cat
      numbered_gifs_match)

lemma floor_random_first: "floor_random 0 n = 0"
  by (simp add: floor_random_def)

lemma shuffled_first_draws_3: "shuffled first_draws [a, b, c] = [b, c, a]"
  by (simp add: shuffled_def first_draws_def floor_random_first)

lemma numbered_gifs_3:
  "numbered_gifs 3 =
     [example_gif ''cat0.gif'' None, example_gif ''cat1.gif'' None, example_gif ''cat2.gif'' None]"
  by (simp add: numbered_gifs_def example_gif_def show_nat.simps str_def cu_def
      numeral_3_eq_3)

lemma three_cats_run:
  "handleSlashCommand
     (example_platform verify_all parse_fails (Resolved 200 (Inr (numbered_gifs 3))))
     (search_command (Some ''cat'')) =
   (Inr (channel_message
           (buildGifPicker
              [example_gif ''cat1.gif'' None, example_gif ''cat2.gif'' None,
               example_gif ''cat0.gif'' None] (str ''cat''))),
    [CatalogGet (str ''https://gif.land/api'')])"
proof -
  have q: "str ''cat'' \<noteq> []" by (simp add: str_def)
  have ne: "numbered_gifs 3 \<noteq> []" by (rule numbered_gifs_nonempty) simp
  have "Math_random (example_platform verify_all parse_fails
                       (Resolved 200 (Inr (numbered_gifs 3)))) = first_draws"
    by (simp add: example_platform_def)
  with search_path [OF example_search_facts(1) q example_search_facts(2), of verify_all
      parse_fails 3] ne
  show ?thesis
    by (simp add: example_search_facts) (simp add: numbered_gifs_3 shuffled_first_draws_3)
qed

lemma three_cats_rows:
  "components (buildGifPicker [a, b, c] q) =
     Some [\<lparr>row_type = 1, row_components = [gif_button a, gif_button b]\<rparr>,
           \<lparr>row_type = 1, row_components = [gif_button c]\<rparr>]"
  by (simp add: buildGifPicker_def row_loop_step row_loop_done slice_str_def)

lemma reply_message_channel: "reply_message (Inr (channel_message m)) = Some m"
  by (simp add: reply_message_def channel_message_def jsonResponse_def)

lemma str_bars: "str ''||'' = [cu CHR ''|'', cu CHR ''|'']" and str_bar: "str ''|'' = [cu CHR ''|'']"
  by (simp_all add: str_def)

lemma split_bars_no_separator:
  "\<not> includes_str s (str ''||'') \<Longrightarrow> split_bars acc s = [rev acc @ s]"
proof (induction acc s rule: split_bars.induct)
  case (1 acc)
  show ?case by simp
next
  case (2 acc c)
  show ?case by simp
next
  case (3 acc c d ds)
  from "3.prems" have nb: "\<not> (c = cu CHR ''|'' \<and> d = cu CHR ''|'')"
    and rest: "\<not> includes_str (d # ds) (str ''||'')"
    by (auto simp: str_bars)
  from "3.IH"(2) [OF nb rest] nb show ?case by simp
qed

lemma split_bars_first_separator:
  "\<not> includes_str (xs @ str ''|'') (str ''||'') \<Longrightarrow>
   split_bars acc (xs @ str ''||'' @ ys) = (rev acc @ xs) # split_bars [] ys"
proof (induction xs arbitrary: acc)
  case Nil
  show ?case by (simp add: str_bars)
next
  case (Cons c xs)
  from Cons.prems have np: "\<not> prefix (str ''||'') (c # xs @ str ''|'')"
    and rest: "\<not> includes_str (xs @ str ''|'') (str ''||'')"
    by auto
  show ?case
  proof (cases xs)
    case Nil
    with np have "c \<noteq> cu CHR ''|''" by (simp add: str_bars str_bar)
    with Nil show ?thesis by (simp add: str_bars)
  next
    case (Cons d xs')
    with np have nb: "\<not> (c = cu CHR ''|'' \<and> d = cu CHR ''|'')" by (auto simp: str_bars)
    have "split_bars acc ((c # xs) @ str ''||'' @ ys) = split_bars (c # acc) (xs @ str ''||'' @ ys)"
      using Cons nb by (auto simp: str_bars)
    also have "\<dots> = (rev (c # acc) @ xs) # split_bars [] ys"
      by (rule Cons.IH [OF rest])
    finally show ?thesis by simp
  qed
qed

lemma decode_payload_joined:
  assumes "\<not> includes_str (u @ str ''|'') (str ''||'')" and "\<not> includes_str t (str ''||'')"
  shows "decode_payload (u @ str ''||'' @ t) = (u, t)"
proof -
  have "split_bars [] (u @ str ''||'' @ t) = [u, t]"
    using split_bars_first_separator [OF assms(1), of "[]" t]
      split_bars_no_separator [OF assms(2), of "[]"]
    by simp
  then show ?thesis
    by (simp add: decode_payload_def split_str_def)
qed

lemma encode_custom_id_fits:
  assumes "length (url g) + length (case tags g of None \<Rightarrow> [] | Some t \<Rightarrow> t) \<le> 93"
  shows "encode_custom_id g =
           (str ''post:'') @ url g @ str ''||'' @ (case tags g of None \<Rightarrow> [] | Some t \<Rightarrow> t)"
  using assms by (simp add: encode_custom_id_def slice_str_def str_def)

lemma gif_embed_decoded:
  "gif_embed \<lparr>id_gif = n, url = url g,
             tags = Some (case tags g of None \<Rightarrow> [] | Some t \<Rightarrow> t), width = w, height = h\<rparr> =
   gif_embed g"
  by (simp add: gif_embed_def gif_title_def split: option.splits)

lemma clicked_example: "clicked_custom_id (button_click c) = c"
  by (simp add: clicked_custom_id_def button_click_def)

lemma slash_status: "handleSlashCommand pf i = (Inr r, eff) \<Longrightarrow> status r = 200"
  by (auto simp: handleSlashCommand_def Let_def channel_message_def jsonResponse_def
      split: sum.splits if_splits)

lemma click_status: "handleButtonClick pf i env = (Inr r, eff) \<Longrightarrow> status r = 200"
  by (auto simp: handleButtonClick_def Let_def jsonResponse_def buildSingleGifMessage_def
      split: sum.splits if_splits prod.splits)

lemma verified_not_401:
  assumes "request_method req = str ''POST''"
    and "verifyDiscordSignature pf (DISCORD_PUBLIC_KEY env)
           (header_or_empty (signature_header req)) (header_or_empty (timestamp_header req))
           (request_text req) = Inr True"
  shows "fst (fetch pf env req) \<noteq>
           Inr \<lparr>status = 401, content_type = None, body = Text (str ''Invalid signature'')\<rparr>"
proof
  assume a: "fst (fetch pf env req) =
           Inr \<lparr>status = 401, content_type = None, body = Text (str ''Invalid signature'')\<rparr>"
  show False
  proof (cases "JSON_parse pf (request_text req)")
    case (Inl e)
    with assms a show False by (simp add: fetch_def)
  next
    case (Inr i)
    let ?r = "\<lparr>status = 401, content_type = None, body = Text (str ''Invalid signature'')\<rparr>"
    from assms a Inr
    have "Inr handlePing = (Inr ?r :: js_error + response)
          \<or> fst (handleSlashCommand pf i) = Inr ?r
          \<or> fst (handleButtonClick pf i env) = Inr ?r
          \<or> Inr (text_response (str ''Unknown interaction type'') 400) = (Inr ?r :: js_error + response)"
      by (simp add: fetch_def split: if_splits)
    moreover have "fst (handleSlashCommand pf i) \<noteq> Inr ?r"
      using slash_status [of pf i ?r] by (cases "handleSlashCommand pf i") auto
    moreover have "fst (handleButtonClick pf i env) \<noteq> Inr ?r"
      using click_status [of pf i env ?r] by (cases "handleButtonClick pf i env") auto
    ultimately show False
      by (simp add: handlePing_def jsonResponse_def text_response_def)
  qed
qed

lemma hex_zz: "hexToUint8Array (str ''zz'') = [0]"
  by (simp add: hexToUint8Array_def hex_loop.simps slice_str_def parseInt16_def is_space_def
      is_hex_digit_def str_def cu_def to_uint8_def)

lemma hex_sign_and_space: "hexToUint8Array (str '' aff'') = hexToUint8Array (str ''0aff'')"
  by (simp add: hexToUint8Array_def hex_loop.simps slice_str_def parseInt16_def is_space_def
      is_hex_digit_def str_def cu_def to_uint8_def hex_value_def hex_digit_value_def)

lemma filter_spec_match:
  assumes "lowers_ascii (toLowerCase pf)" and "is_ascii qry"
    and "\<forall>g \<in> set gifs. is_ascii (url g) \<and> (case tags g of None \<Rightarrow> True | Some t \<Rightarrow> is_ascii t)"
  shows "filter (matches_query pf (toLowerCase pf qry)) gifs = filter (spec_match qry) gifs"
proof (rule filter_cong [OF refl])
  fix g
  assume "g \<in> set gifs"
  with assms(3) have "is_ascii (url g)" "case tags g of None \<Rightarrow> True | Some t \<Rightarrow> is_ascii t"
    by auto
  then show "matches_query pf (toLowerCase pf qry) g = spec_match qry g"
    by (rule matches_query_spec [OF assms(1,2)])
qed

lemma example_contains:
  "contains_ci (str ''Funny CAT'') (str ''cat'')"
  "\<not> contains_ci (str ''a.gif'') (str ''cat'')"
  "\<not> contains_ci (str ''dog.gif'') (str ''cat'')"
  "\<not> contains_ci (str ''Funny CAT'') (str ''bird'')"
  "\<not> contains_ci (str ''a.gif'') (str ''bird'')"
  "\<not> contains_ci (str ''dog.gif'') (str ''bird'')"
  "contains_ci (str ''dog.gif'') (str ''DOG'')"
  "\<not> contains_ci (str ''a.gif'') (str ''DOG'')"
  by (simp_all add: str_def cu_def same_letter_def is_upper_def)

lemma example_ascii:
  "is_ascii (str ''cat'')" "is_ascii (str ''bird'')" "is_ascii (str ''DOG'')"
  "is_ascii (str ''a.gif'')" "is_ascii (str ''dog.gif'')" "is_ascii (str ''Funny CAT'')"
  by (simp_all add: is_ascii_def str_def cu_def)


lemma shuffled_single: "shuffled rnd [g] = [g]"
  by (simp add: shuffled_def)

lemma example_spec_match:
  "spec_match (str ''cat'') (example_gif ''a.gif'' (Some ''Funny CAT''))"
  "\<not> spec_match (str ''cat'') (example_gif ''dog.gif'' None)"
  "\<not> spec_match (str ''bird'') (example_gif ''a.gif'' (Some ''Funny CAT''))"
  "\<not> spec_match (str ''bird'') (example_gif ''dog.gif'' None)"
  by (simp_all add: spec_match_def example_gif_def gif_of_def example_contains)

lemma trim_words:
  "trim (str ''bird'') = str ''bird''" "trim (str ''DOG'') = str ''DOG''"
  by (simp_all add: trim_def is_space_def str_def cu_def)

lemma sigma_lowered:
  "toLowerCase (example_platform v p c) sigma_tags = [0x3B1, 0x3C2]"
  "toLowerCase (example_platform v p c) sigma_word = [0x3C3]"
  "toLowerCase (example_platform v p c) (str ''a.gif'') = str ''a.gif''"
  by (simp_all add: example_platform_def example_lower_def sigma_tags_def sigma_word_def
      str_def cu_def ascii_lower_def is_upper_def)



subsection \<open>The gates of the main handler\<close>

text \<open>
  Claim C7. The main handler answers a request that is not a POST with status 404. It
  answers a POST whose signature verification returns false with status 401 and does
  nothing else: no outbound call is made, and the answer is the same whatever
  \<open>JSON.parse\<close>, the random source, the case mapping and the catalog service would have
  given, so none of them is consulted. It answers a verified POST whose body parses to
  an interaction of a type other than 1 (ping), 2 (command) and 3 (component click)
  with status 400.
\<close>

theorem fetch_gates:
  "(request_method req \<noteq> str ''POST'' \<longrightarrow>
      fetch pf env req =
        (Inr \<lparr>status = 404, content_type = None, body = Text (str ''Not found'')\<rparr>, []))
   \<and> (request_method req = str ''POST'' \<and>
        verifyDiscordSignature pf (DISCORD_PUBLIC_KEY env)
          (header_or_empty (signature_header req)) (header_or_empty (timestamp_header req))
          (request_text req) = Inr False \<longrightarrow>
      (\<forall>p r l c. fetch (pf\<lparr>JSON_parse := p, Math_random := r, toLowerCase := l, catalog := c\<rparr>) env req =
        (Inr \<lparr>status = 401, content_type = None, body = Text (str ''Invalid signature'')\<rparr>, [])))
   \<and> (request_method req = str ''POST'' \<and>
        verifyDiscordSignature pf (DISCORD_PUBLIC_KEY env)
          (header_or_empty (signature_header req)) (header_or_empty (timestamp_header req))
          (request_text req) = Inr True \<and>
        JSON_parse pf (request_text req) = Inr i \<and>
        interaction_type i \<noteq> Some 1 \<and> interaction_type i \<noteq> Some 2 \<and>
        interaction_type i \<noteq> Some 3 \<longrightarrow>
      fetch pf env req =
        (Inr \<lparr>status = 400, content_type = None, body = Text (str ''Unknown interaction type'')\<rparr>,
         []))"
proof (intro conjI impI allI)
  assume "request_method req \<noteq> str ''POST''"
  then show "fetch pf env req =
        (Inr \<lparr>status = 404, content_type = None, body = Text (str ''Not found'')\<rparr>, [])"
    by (simp add: fetch_def text_response_def)
next
  fix p r l c
  assume "request_method req = str ''POST'' \<and>
        verifyDiscordSignature pf (DISCORD_PUBLIC_KEY env)
          (header_or_empty (signature_header req)) (header_or_empty (timestamp_header req))
          (request_text req) = Inr False"
  then show "fetch (pf\<lparr>JSON_parse := p, Math_random := r, toLowerCase := l, catalog := c\<rparr>) env req =
        (Inr \<lparr>status = 401, content_type = None, body = Text (str ''Invalid signature'')\<rparr>, [])"
    by (simp add: fetch_def verify_ignores_rest text_response_def)
next
  assume "request_method req = str ''POST'' \<and>
        verifyDiscordSignature pf (DISCORD_PUBLIC_KEY env)
          (header_or_empty (signature_header req)) (header_or_empty (timestamp_header req))
          (request_text req) = Inr True \<and>
        JSON_parse pf (request_text req) = Inr i \<and>
        interaction_type i \<noteq> Some 1 \<and> interaction_type i \<noteq> Some 2 \<and>
        interaction_type i \<noteq> Some 3"
  then show "fetch pf env req =
        (Inr \<lparr>status = 400, content_type = None, body = Text (str ''Unknown interaction type'')\<rparr>,
         [])"
    by (simp add: fetch_def text_response_def PING_def APPLICATION_COMMAND_def
        MESSAGE_COMPONENT_def)
qed

theorem fetch_gates_witness:
  "fetch (example_platform verify_all parse_fails Rejected) (example_env good_key)
      (example_request ''GET'' ''00'') =
     (Inr \<lparr>status = 404, content_type = None, body = Text (str ''Not found'')\<rparr>, [])
   \<and> fetch (example_platform verify_none (parse_as plain_command) (Resolved 200 (Inr [])))
        (example_env good_key) (example_request ''POST'' ''00'') =
     (Inr \<lparr>status = 401, content_type = None, body = Text (str ''Invalid signature'')\<rparr>, [])
   \<and> fetch (example_platform verify_all
              (parse_as \<lparr>interaction_type = Some 9, data = None, token = str ''tok''\<rparr>) Rejected)
        (example_env good_key) (example_request ''POST'' ''00'') =
     (Inr \<lparr>status = 400, content_type = None, body = Text (str ''Unknown interaction type'')\<rparr>, [])"
proof (intro conjI)
  show "fetch (example_platform verify_all parse_fails Rejected) (example_env good_key)
      (example_request ''GET'' ''00'') =
     (Inr \<lparr>status = 404, content_type = None, body = Text (str ''Not found'')\<rparr>, [])"
    using fetch_gates [of "example_request ''GET'' ''00''"
        "example_platform verify_all parse_fails Rejected" "example_env good_key"]
    by (simp add: example_request_def str_def cu_def)
next
  let ?pf = "example_platform verify_none parse_fails Rejected"
  have eq: "?pf\<lparr>JSON_parse := parse_as plain_command, Math_random := first_draws,
                toLowerCase := example_lower, catalog := Resolved 200 (Inr [])\<rparr> =
            example_platform verify_none (parse_as plain_command) (Resolved 200 (Inr []))"
    by (simp add: example_platform_def)
  have v: "verifyDiscordSignature ?pf (DISCORD_PUBLIC_KEY (example_env good_key))
          (header_or_empty (signature_header (example_request ''POST'' ''00'')))
          (header_or_empty (timestamp_header (example_request ''POST'' ''00'')))
          (request_text (example_request ''POST'' ''00'')) = Inr False"
    by (simp add: example_env_def verify_example_none)
  have m: "request_method (example_request ''POST'' ''00'') = str ''POST''"
    by (simp add: example_request_def)
  from fetch_gates [of "example_request ''POST'' ''00''" ?pf "example_env good_key"] v m
  have "\<forall>p r l c. fetch (?pf\<lparr>JSON_parse := p, Math_random := r, toLowerCase := l, catalog := c\<rparr>)
           (example_env good_key) (example_request ''POST'' ''00'') =
        (Inr \<lparr>status = 401, content_type = None, body = Text (str ''Invalid signature'')\<rparr>, [])"
    by blast
  then have "fetch (?pf\<lparr>JSON_parse := parse_as plain_command, Math_random := first_draws,
                toLowerCase := example_lower, catalog := Resolved 200 (Inr [])\<rparr>)
           (example_env good_key) (example_request ''POST'' ''00'') =
        (Inr \<lparr>status = 401, content_type = None, body = Text (str ''Invalid signature'')\<rparr>, [])"
    by blast
  then show "fetch (example_platform verify_none (parse_as plain_command) (Resolved 200 (Inr [])))
        (example_env good_key) (example_request ''POST'' ''00'') =
     (Inr \<lparr>status = 401, content_type = None, body = Text (str ''Invalid signature'')\<rparr>, [])"
    by (simp only: eq)
next
  let ?i = "\<lparr>interaction_type = Some 9, data = None, token = str ''tok''\<rparr>"
  let ?pf = "example_platform verify_all (parse_as ?i) Rejected"
  have v: "verifyDiscordSignature ?pf (DISCORD_PUBLIC_KEY (example_env good_key))
          (header_or_empty (signature_header (example_request ''POST'' ''00'')))
          (header_or_empty (timestamp_header (example_request ''POST'' ''00'')))
          (request_text (example_request ''POST'' ''00'')) = Inr True"
    by (simp add: example_env_def verify_example_all)
  have m: "request_method (example_request ''POST'' ''00'') = str ''POST''"
    by (simp add: example_request_def)
  have p: "JSON_parse ?pf (request_text (example_request ''POST'' ''00'')) = Inr ?i"
    by (simp add: example_platform_def parse_as_def)
  from fetch_gates [of "example_request ''POST'' ''00''" ?pf "example_env good_key" ?i] v m p
  show "fetch ?pf (example_env good_key) (example_request ''POST'' ''00'') =
     (Inr \<lparr>status = 400, content_type = None, body = Text (str ''Unknown interaction type'')\<rparr>, [])"
    by simp
qed

text \<open>
  Claim C2 says that a signature or public key that is not well-formed hexadecimal is
  answered with status 401 and never with an exception. The code does not check the
  encoding and has no handler around the verification. What holds for a POST request:
  \<open>hexToUint8Array\<close> never raises and gives half as many bytes as the text has
  characters, whatever the characters are; if importing the decoded key raises, or the
  verification of the decoded signature raises, the exception is the outcome of the
  handler; if the import succeeds and the verification returns false, the answer is
  401 with no further effect; and the answer is 401 only in that case.
\<close>

theorem signature_gate_outcomes:
  assumes "request_method req = str ''POST''"
    and "keyBytes = hexToUint8Array (DISCORD_PUBLIC_KEY env)"
    and "sigBytes = hexToUint8Array (header_or_empty (signature_header req))"
    and "msg = text_encode (header_or_empty (timestamp_header req) @ request_text req)"
  shows "length keyBytes = length (DISCORD_PUBLIC_KEY env) div 2
         \<and> length sigBytes = length (header_or_empty (signature_header req)) div 2
         \<and> (\<forall>e. importKey pf keyBytes = Inl e \<longrightarrow> fetch pf env req = (Inl e, []))
         \<and> (\<forall>k e. importKey pf keyBytes = Inr k \<and> verify pf k sigBytes msg = Inl e
               \<longrightarrow> fetch pf env req = (Inl e, []))
         \<and> (\<forall>k. importKey pf keyBytes = Inr k \<and> verify pf k sigBytes msg = Inr False
               \<longrightarrow> fetch pf env req =
                     (Inr \<lparr>status = 401, content_type = None, body = Text (str ''Invalid signature'')\<rparr>,
                      []))
         \<and> (fst (fetch pf env req) =
               Inr \<lparr>status = 401, content_type = None, body = Text (str ''Invalid signature'')\<rparr>
             \<longrightarrow> (\<exists>k. importKey pf keyBytes = Inr k \<and> verify pf k sigBytes msg = Inr False))"
proof -
  let ?v = "verifyDiscordSignature pf (DISCORD_PUBLIC_KEY env)
           (header_or_empty (signature_header req)) (header_or_empty (timestamp_header req))
           (request_text req)"
  have v: "?v = (case importKey pf keyBytes of Inl e \<Rightarrow> Inl e
                 | Inr key \<Rightarrow> verify pf key sigBytes msg)"
    unfolding verifyDiscordSignature_def assms(2,3,4) by (rule refl)
  have c1: "length keyBytes = length (DISCORD_PUBLIC_KEY env) div 2"
    by (simp add: assms(2) length_hexToUint8Array)
  have c2: "length sigBytes = length (header_or_empty (signature_header req)) div 2"
    by (simp add: assms(3) length_hexToUint8Array)
  have c3: "\<forall>e. importKey pf keyBytes = Inl e \<longrightarrow> fetch pf env req = (Inl e, [])"
    using assms(1) v by (simp add: fetch_def)
  have c4: "\<forall>k e. importKey pf keyBytes = Inr k \<and> verify pf k sigBytes msg = Inl e
               \<longrightarrow> fetch pf env req = (Inl e, [])"
    using assms(1) v by (simp add: fetch_def)
  have c5: "\<forall>k. importKey pf keyBytes = Inr k \<and> verify pf k sigBytes msg = Inr False
               \<longrightarrow> fetch pf env req =
                     (Inr \<lparr>status = 401, content_type = None, body = Text (str ''Invalid signature'')\<rparr>,
                      [])"
    using assms(1) v by (simp add: fetch_def text_response_def)
  have c6: "fst (fetch pf env req) =
               Inr \<lparr>status = 401, content_type = None, body = Text (str ''Invalid signature'')\<rparr>
             \<longrightarrow> (\<exists>k. importKey pf keyBytes = Inr k \<and> verify pf k sigBytes msg = Inr False)"
  proof
    assume a: "fst (fetch pf env req) =
               Inr \<lparr>status = 401, content_type = None, body = Text (str ''Invalid signature'')\<rparr>"
    show "\<exists>k. importKey pf keyBytes = Inr k \<and> verify pf k sigBytes msg = Inr False"
    proof (cases ?v)
      case (Inl e)
      with a assms(1) show ?thesis by (simp add: fetch_def)
    next
      case (Inr b)
      show ?thesis
      proof (cases b)
        case True
        with Inr have "?v = Inr True" by simp
        from verified_not_401 [OF assms(1) this] a show ?thesis by contradiction
      next
        case False
        with Inr v show ?thesis by (auto split: sum.splits)
      qed
    qed
  qed
  from c1 c2 c3 c4 c5 c6 show ?thesis by blast
qed

theorem signature_gate_outcomes_witness:
  "request_method (example_request ''POST'' ''zz'') = str ''POST''
   \<and> importKey (example_platform verify_none parse_fails Rejected)
        (hexToUint8Array (DISCORD_PUBLIC_KEY (example_env good_key))) =
       Inr (hexToUint8Array (str good_key))
   \<and> fetch (example_platform verify_none parse_fails Rejected) (example_env good_key)
        (example_request ''POST'' ''zz'') =
       (Inr \<lparr>status = 401, content_type = None, body = Text (str ''Invalid signature'')\<rparr>, [])
   \<and> importKey (example_platform verify_none parse_fails Rejected)
        (hexToUint8Array (DISCORD_PUBLIC_KEY (example_env ''zz''))) = Inl DataError
   \<and> fetch (example_platform verify_none parse_fails Rejected) (example_env ''zz'')
        (example_request ''POST'' ''00'') = (Inl DataError, [])"
proof -
  let ?pf = "example_platform verify_none parse_fails Rejected"
  have m: "request_method (example_request ''POST'' sg) = str ''POST''" for sg
    by (simp add: example_request_def)
  have k1: "importKey ?pf (hexToUint8Array (DISCORD_PUBLIC_KEY (example_env good_key))) =
            Inr (hexToUint8Array (str good_key))"
    by (simp add: example_env_def good_key_imports)
  have v1: "verify ?pf (hexToUint8Array (str good_key)) sg ms = Inr False" for sg ms
    by (simp add: example_platform_def verify_none_def)
  have k2: "importKey ?pf (hexToUint8Array (DISCORD_PUBLIC_KEY (example_env ''zz''))) =
            Inl DataError"
    by (simp add: example_env_def example_platform_def raw_key_import_def hex_zz)
  from signature_gate_outcomes
         [where req = "example_request ''POST'' ''zz''" and env = "example_env good_key"
            and pf = ?pf, OF m refl refl refl]
  have "\<forall>k. importKey ?pf (hexToUint8Array (DISCORD_PUBLIC_KEY (example_env good_key))) = Inr k
          \<and> verify ?pf k
               (hexToUint8Array (header_or_empty (signature_header (example_request ''POST'' ''zz''))))
               (text_encode (header_or_empty (timestamp_header (example_request ''POST'' ''zz''))
                             @ request_text (example_request ''POST'' ''zz''))) = Inr False
          \<longrightarrow> fetch ?pf (example_env good_key) (example_request ''POST'' ''zz'') =
                (Inr \<lparr>status = 401, content_type = None, body = Text (str ''Invalid signature'')\<rparr>, [])"
    by blast
  with k1 v1
  have r1: "fetch ?pf (example_env good_key) (example_request ''POST'' ''zz'') =
            (Inr \<lparr>status = 401, content_type = None, body = Text (str ''Invalid signature'')\<rparr>, [])"
    by blast
  from signature_gate_outcomes
         [where req = "example_request ''POST'' ''00''" and env = "example_env ''zz''"
            and pf = ?pf, OF m refl refl refl]
  have "\<forall>e. importKey ?pf (hexToUint8Array (DISCORD_PUBLIC_KEY (example_env ''zz''))) = Inl e
          \<longrightarrow> fetch ?pf (example_env ''zz'') (example_request ''POST'' ''00'') = (Inl e, [])"
    by blast
  with k2 have r2: "fetch ?pf (example_env ''zz'') (example_request ''POST'' ''00'') =
                    (Inl DataError, [])"
    by blast
  from m k1 r1 k2 r2 show ?thesis by blast
qed

text \<open>
  Against claim C2 as stated: the public key \<open>zz\<close> is not hexadecimal. It decodes to
  one zero byte, the import of a raw key refuses it, and the handler ends with that
  exception instead of a 401.
\<close>

theorem malformed_key_counterexample:
  "\<not> well_formed_hex (str ''zz'')
   \<and> fetch (example_platform verify_none parse_fails Rejected) (example_env ''zz'')
       (example_request ''POST'' ''00'') = (Inl DataError, [])"
proof -
  have "\<not> well_formed_hex (str ''zz'')"
    by (simp add: well_formed_hex_def is_hex_digit_def str_def cu_def)
  moreover have "importKey (example_platform verify_none parse_fails Rejected)
                   (hexToUint8Array (str ''zz'')) = Inl DataError"
    by (simp add: example_platform_def raw_key_import_def hex_zz)
  then have "fetch (example_platform verify_none parse_fails Rejected) (example_env ''zz'')
       (example_request ''POST'' ''00'') = (Inl DataError, [])"
    by (simp add: fetch_def example_request_def example_env_def verifyDiscordSignature_def)
  ultimately show ?thesis by blast
qed

subsection \<open>The command handler\<close>

text \<open>
  Claim C1 asks that a command without a search term, or with a blank one, run against
  an empty catalog ends in a handled reply. The handler indexes the empty array, passes
  \<open>undefined\<close> to \<open>buildSingleGifMessage\<close>, and the property read there raises: the
  handler returns no response at all. The search path next to it does check for an
  empty list of matches.
\<close>

theorem empty_catalog_random_pick_raises:
  "handleSlashCommand (example_platform verify_all parse_fails (Resolved 200 (Inr [])))
      plain_command = (Inl TypeError, [CatalogGet (str ''https://gif.land/api'')])
   \<and> handleSlashCommand (example_platform verify_all parse_fails (Resolved 200 (Inr [])))
      (search_command (Some ''  '')) = (Inl TypeError, [CatalogGet (str ''https://gif.land/api'')])"
proof
  have "search_query plain_command = []"
    by (simp add: plain_command_def search_query_def trim_def)
  then show "handleSlashCommand (example_platform verify_all parse_fails (Resolved 200 (Inr [])))
      plain_command = (Inl TypeError, [CatalogGet (str ''https://gif.land/api'')])"
    by (rule random_pick_empty) (rule fetchGifs_example_ok)
next
  have "search_query (search_command (Some ''  '')) = []"
    by (simp add: search_query_example trim_def is_space_def str_def cu_def)
  then show "handleSlashCommand (example_platform verify_all parse_fails (Resolved 200 (Inr [])))
      (search_command (Some ''  '')) = (Inl TypeError, [CatalogGet (str ''https://gif.land/api'')])"
    by (rule random_pick_empty) (rule fetchGifs_example_ok)
qed

text \<open>
  Claim C5 says that, for every search term and catalog, the matches are the items
  whose tag string or url contains the term as a case-insensitive substring. The
  handler puts the field and the term in lower case with \<open>toLowerCase\<close> and tests
  whether the one result contains the other. On ASCII text the two agree, and this is
  what holds: when \<open>toLowerCase\<close> lowers ASCII text letter by letter, and the search
  word, the urls and the tag strings of the catalog are ASCII, the list of matches the
  handler computes is the catalog filtered, in catalog order, by: the tag string or
  the url contains the word, the case of the letters \<open>A\<close> to \<open>Z\<close> set aside. An item
  whose tags contain the word and whose url does not is a match; when no item contains
  the word in either field the list is empty. With a non-empty search word (the
  trimmed value of the \<open>search\<close> option) and a catalog that was fetched, the handler
  answers from exactly this list: the no-results message when it is empty, a picker of
  the first ten of its shuffle otherwise. Containing the word means: the field is some
  text, then a stretch that agrees with the word letter by letter up to case, then
  some text.
\<close>

theorem search_match_set:
  assumes "lowers_ascii (toLowerCase pf)"
    and "is_ascii qry"
    and "\<forall>g \<in> set gifs. is_ascii (url g) \<and> (case tags g of None \<Rightarrow> True | Some t \<Rightarrow> is_ascii t)"
  shows
  "filter (matches_query pf (toLowerCase pf qry)) gifs = filter (spec_match qry) gifs
   \<and> (\<forall>g t. g \<in> set gifs \<and> tags g = Some t \<and> contains_ci t qry
              \<and> \<not> contains_ci (url g) qry
         \<longrightarrow> g \<in> set (filter (matches_query pf (toLowerCase pf qry)) gifs))
   \<and> ((\<forall>g \<in> set gifs. \<not> spec_match qry g)
         \<longrightarrow> filter (matches_query pf (toLowerCase pf qry)) gifs = [])
   \<and> (search_query i = qry \<and> qry \<noteq> [] \<and> fetchGifs (catalog pf) = Inr gifs \<longrightarrow>
        handleSlashCommand pf i =
          (if filter (spec_match qry) gifs = []
           then (Inr (channel_message (no_results_message qry)),
                 [CatalogGet (str ''https://gif.land/api'')])
           else (Inr (channel_message
                        (buildGifPicker
                           (take 10 (shuffled (Math_random pf) (filter (spec_match qry) gifs)))
                           qry)),
                 [CatalogGet (str ''https://gif.land/api'')])))
   \<and> (contains_ci field qry \<longleftrightarrow>
        (\<exists>ps w ss. field = ps @ w @ ss \<and> list_all2 same_letter qry w))"
proof -
  have eq: "filter (matches_query pf (toLowerCase pf qry)) gifs = filter (spec_match qry) gifs"
    by (rule filter_spec_match [OF assms])
  have only_tags: "\<forall>g t. g \<in> set gifs \<and> tags g = Some t \<and> contains_ci t qry
              \<and> \<not> contains_ci (url g) qry
         \<longrightarrow> g \<in> set (filter (matches_query pf (toLowerCase pf qry)) gifs)"
    unfolding eq by (simp add: spec_match_def)
  have none: "(\<forall>g \<in> set gifs. \<not> spec_match qry g)
         \<longrightarrow> filter (matches_query pf (toLowerCase pf qry)) gifs = []"
    unfolding eq by (simp add: filter_empty_conv)
  have run: "search_query i = qry \<and> qry \<noteq> [] \<and> fetchGifs (catalog pf) = Inr gifs \<longrightarrow>
        handleSlashCommand pf i =
          (if filter (spec_match qry) gifs = []
           then (Inr (channel_message (no_results_message qry)),
                 [CatalogGet (str ''https://gif.land/api'')])
           else (Inr (channel_message
                        (buildGifPicker
                           (take 10 (shuffled (Math_random pf) (filter (spec_match qry) gifs)))
                           qry)),
                 [CatalogGet (str ''https://gif.land/api'')]))"
  proof
    assume a: "search_query i = qry \<and> qry \<noteq> [] \<and> fetchGifs (catalog pf) = Inr gifs"
    then have "search_query i = qry" "qry \<noteq> []" "fetchGifs (catalog pf) = Inr gifs"
      by simp_all
    from search_path [OF this] have "handleSlashCommand pf i =
          (if filter (matches_query pf (toLowerCase pf qry)) gifs = []
           then (Inr (channel_message (no_results_message qry)),
                 [CatalogGet (str ''https://gif.land/api'')])
           else (Inr (channel_message
                        (buildGifPicker
                           (take 10 (shuffled (Math_random pf)
                                       (filter (matches_query pf (toLowerCase pf qry)) gifs)))
                           qry)),
                 [CatalogGet (str ''https://gif.land/api'')]))" .
    then show "handleSlashCommand pf i =
          (if filter (spec_match qry) gifs = []
           then (Inr (channel_message (no_results_message qry)),
                 [CatalogGet (str ''https://gif.land/api'')])
           else (Inr (channel_message
                        (buildGifPicker
                           (take 10 (shuffled (Math_random pf) (filter (spec_match qry) gifs)))
                           qry)),
                 [CatalogGet (str ''https://gif.land/api'')]))"
      unfolding eq .
  qed
  note occ = contains_ci_occurrence [of field qry]
  from eq only_tags none run occ show ?thesis by blast
qed

theorem search_match_set_witness:
  "lowers_ascii
     (toLowerCase
        (example_platform verify_all parse_fails
           (Resolved 200
              (Inr [example_gif ''a.gif'' (Some ''Funny CAT''), example_gif ''dog.gif'' None]))))
   \<and> is_ascii (str ''cat'') \<and> is_ascii (str ''bird'')
   \<and> tags (example_gif ''a.gif'' (Some ''Funny CAT'')) = Some (str ''Funny CAT'')
   \<and> contains_ci (str ''Funny CAT'') (str ''cat'')
   \<and> \<not> contains_ci (url (example_gif ''a.gif'' (Some ''Funny CAT''))) (str ''cat'')
   \<and> search_query (search_command (Some ''cat'')) = str ''cat''
   \<and> handleSlashCommand
        (example_platform verify_all parse_fails
           (Resolved 200
              (Inr [example_gif ''a.gif'' (Some ''Funny CAT''), example_gif ''dog.gif'' None])))
        (search_command (Some ''cat'')) =
       (Inr (channel_message
               (buildGifPicker [example_gif ''a.gif'' (Some ''Funny CAT'')] (str ''cat''))),
        [CatalogGet (str ''https://gif.land/api'')])
   \<and> \<not> spec_match (str ''bird'') (example_gif ''a.gif'' (Some ''Funny CAT''))
   \<and> \<not> spec_match (str ''bird'') (example_gif ''dog.gif'' None)
   \<and> search_query (search_command (Some ''bird'')) = str ''bird''
   \<and> handleSlashCommand
        (example_platform verify_all parse_fails
           (Resolved 200
              (Inr [example_gif ''a.gif'' (Some ''Funny CAT''), example_gif ''dog.gif'' None])))
        (search_command (Some ''bird'')) =
       (Inr (channel_message (no_results_message (str ''bird''))),
        [CatalogGet (str ''https://gif.land/api'')])"
proof -
  let ?a = "example_gif ''a.gif'' (Some ''Funny CAT'')"
  let ?d = "example_gif ''dog.gif'' None"
  let ?gifs = "[?a, ?d]"
  let ?pf = "example_platform verify_all parse_fails (Resolved 200 (Inr ?gifs))"
  have low: "lowers_ascii (toLowerCase ?pf)" by (rule example_platform_lowers)
  have fields: "\<forall>g \<in> set ?gifs.
                  is_ascii (url g) \<and> (case tags g of None \<Rightarrow> True | Some t \<Rightarrow> is_ascii t)"
    by (simp add: example_gif_def gif_of_def example_ascii)
  have qc: "search_query (search_command (Some ''cat'')) = str ''cat''"
    by (rule example_search_facts(1))
  have qb: "search_query (search_command (Some ''bird'')) = str ''bird''"
    by (simp add: search_query_example trim_words)
  have nec: "str ''cat'' \<noteq> []" and neb: "str ''bird'' \<noteq> []" by (simp_all add: str_def)
  have f: "fetchGifs (catalog ?pf) = Inr ?gifs" by (rule fetchGifs_example_ok)
  have t1: "tags ?a = Some (str ''Funny CAT'')" and u1: "url ?a = str ''a.gif''"
    by (simp_all add: example_gif_def gif_of_def)
  have fc: "filter (spec_match (str ''cat'')) ?gifs = [?a]"
    by (simp add: example_spec_match)
  have fb: "filter (spec_match (str ''bird'')) ?gifs = []"
    by (simp add: example_spec_match)
  note cat = search_match_set [OF low example_ascii(1) fields]
  note bird = search_match_set [OF low example_ascii(2) fields]
  from cat [of "search_command (Some ''cat'')"] qc nec f
  have "handleSlashCommand ?pf (search_command (Some ''cat'')) =
          (if filter (spec_match (str ''cat'')) ?gifs = []
           then (Inr (channel_message (no_results_message (str ''cat''))),
                 [CatalogGet (str ''https://gif.land/api'')])
           else (Inr (channel_message
                        (buildGifPicker
                           (take 10 (shuffled (Math_random ?pf)
                                       (filter (spec_match (str ''cat'')) ?gifs)))
                           (str ''cat''))),
                 [CatalogGet (str ''https://gif.land/api'')]))"
    by blast
  then have rc: "handleSlashCommand ?pf (search_command (Some ''cat'')) =
       (Inr (channel_message (buildGifPicker [?a] (str ''cat''))),
        [CatalogGet (str ''https://gif.land/api'')])"
    unfolding fc by (simp add: shuffled_single)
  from bird [of "search_command (Some ''bird'')"] qb neb f
  have "handleSlashCommand ?pf (search_command (Some ''bird'')) =
          (if filter (spec_match (str ''bird'')) ?gifs = []
           then (Inr (channel_message (no_results_message (str ''bird''))),
                 [CatalogGet (str ''https://gif.land/api'')])
           else (Inr (channel_message
                        (buildGifPicker
                           (take 10 (shuffled (Math_random ?pf)
                                       (filter (spec_match (str ''bird'')) ?gifs)))
                           (str ''bird''))),
                 [CatalogGet (str ''https://gif.land/api'')]))"
    by blast
  then have rb: "handleSlashCommand ?pf (search_command (Some ''bird'')) =
       (Inr (channel_message (no_results_message (str ''bird''))),
        [CatalogGet (str ''https://gif.land/api'')])"
    unfolding fb by simp
  have c2: "\<not> contains_ci (url ?a) (str ''cat'')"
    by (simp add: u1 example_contains)
  from low example_ascii(1,2) t1 example_contains(1) c2 qc rc example_spec_match(3,4) qb rb
  show ?thesis by blast
qed

text \<open>
  Against claim C5 as stated: outside ASCII, the lower case of a string is not made of
  the lower cases of its letters. The tag string \<open>U+0391 U+03A3\<close> contains the search
  word \<open>U+03A3\<close> as it stands. In lower case the tag string ends in the final sigma
  \<open>U+03C2\<close> and the word is the sigma \<open>U+03C3\<close>, so the item is not matched, and the
  handler answers that no GIFs were found.
\<close>

theorem final_sigma_counterexample:
  "sublist sigma_word sigma_tags
   \<and> contains_ci sigma_tags sigma_word
   \<and> tags (gif_of (str ''a.gif'') (Some sigma_tags)) = Some sigma_tags
   \<and> search_query (search_for (Some sigma_word)) = sigma_word
   \<and> handleSlashCommand
        (example_platform verify_all parse_fails
           (Resolved 200 (Inr [gif_of (str ''a.gif'') (Some sigma_tags)])))
        (search_for (Some sigma_word)) =
       (Inr (channel_message (no_results_message sigma_word)),
        [CatalogGet (str ''https://gif.land/api'')])"
proof -
  let ?g = "gif_of (str ''a.gif'') (Some sigma_tags)"
  let ?pf = "example_platform verify_all parse_fails (Resolved 200 (Inr [?g]))"
  have s: "sublist sigma_word sigma_tags"
    by (simp add: sigma_word_def sigma_tags_def sublist_Cons_right)
  have c: "contains_ci sigma_tags sigma_word"
    by (simp add: sigma_word_def sigma_tags_def same_letter_def)
  have t: "tags ?g = Some sigma_tags" by (simp add: gif_of_def)
  have q: "search_query (search_for (Some sigma_word)) = sigma_word"
    by (simp add: search_query_def search_for_def trim_def is_space_def sigma_word_def)
  have ne: "sigma_word \<noteq> []" by (simp add: sigma_word_def)
  have f: "fetchGifs (catalog ?pf) = Inr [?g]" by (rule fetchGifs_example_ok)
  have m: "\<not> matches_query ?pf (toLowerCase ?pf sigma_word) ?g"
    by (simp add: matches_query_def gif_of_def sigma_lowered) (simp add: str_def cu_def)
  from search_path [OF q ne f] m
  have "handleSlashCommand ?pf (search_for (Some sigma_word)) =
       (Inr (channel_message (no_results_message sigma_word)),
        [CatalogGet (str ''https://gif.land/api'')])"
    by simp
  with s c t q show ?thesis by blast
qed



text \<open>
  Claim C4 says that up to ten matches the header states the exact count, and that
  more than ten matches give ten items and a header that signals truncation. The
  header is chosen from the number of items shown, so ten matches, none of them left
  out, already get the second header. What holds: the items shown are
  \<open>min 10 N\<close> of the \<open>N\<close> matches, all of them when \<open>N \<le> 10\<close>; for \<open>N < 10\<close> the header is
  \<open>Found N GIF\<close>, with an \<open>s\<close> unless \<open>N = 1\<close>; for \<open>N \<ge> 10\<close> it is the
  \<open>Showing 10 GIFs\<close> header with the hint to narrow the search.
\<close>

theorem picker_shows_capped_matches:
  assumes "search_query i = q" and "q \<noteq> []" and "fetchGifs (catalog pf) = Inr gifs"
    and "filter (matches_query pf (toLowerCase pf q)) gifs = ms" and "ms \<noteq> []"
  shows "\<exists>shown.
           handleSlashCommand pf i =
             (Inr (channel_message
                     \<lparr>content =
                        Some (if 10 \<le> length ms
                              then str ''Showing 10 GIFs for **'' @ q @ str ''** '' @ em_dash
                                     @ str '' try a more specific search to narrow results.''
                              else str ''Found '' @ show_nat (length ms) @ str '' GIF''
                                     @ (if length ms = 1 then [] else str ''s'')
                                     @ str '' for **'' @ q @ str ''**''),
                      embeds = Some (map gif_embed shown),
                      components = Some (row_loop shown 0 []),
                      flags = Some 64\<rparr>),
              [CatalogGet (str ''https://gif.land/api'')])
           \<and> length shown = min 10 (length ms)
           \<and> mset shown \<subseteq># mset ms
           \<and> (length ms \<le> 10 \<longrightarrow> mset shown = mset ms)"
proof -
  let ?shown = "take 10 (shuffled (Math_random pf) ms)"
  have len: "length ?shown = min 10 (length ms)"
    by (simp add: length_shuffled min.commute)
  have sub: "mset ?shown \<subseteq># mset ms"
    using mset_take_subset [of 10 "shuffled (Math_random pf) ms"] by (simp add: mset_shuffled)
  have all: "length ms \<le> 10 \<longrightarrow> mset ?shown = mset ms"
    by (simp add: length_shuffled mset_shuffled)
  have hdr: "headerText (length ?shown) q =
               (if 10 \<le> length ms
                then str ''Showing 10 GIFs for **'' @ q @ str ''** '' @ em_dash
                       @ str '' try a more specific search to narrow results.''
                else str ''Found '' @ show_nat (length ms) @ str '' GIF''
                       @ (if length ms = 1 then [] else str ''s'')
                       @ str '' for **'' @ q @ str ''**'')"
    unfolding len by (simp add: headerText_def MAX_GIFS_SHOWN_def show_nat_10 str_def)
  have "handleSlashCommand pf i =
          (Inr (channel_message (buildGifPicker ?shown q)), [CatalogGet (str ''https://gif.land/api'')])"
    using search_path [OF assms(1,2,3)] assms(4,5) by simp
  then have "handleSlashCommand pf i =
             (Inr (channel_message
                     \<lparr>content =
                        Some (if 10 \<le> length ms
                              then str ''Showing 10 GIFs for **'' @ q @ str ''** '' @ em_dash
                                     @ str '' try a more specific search to narrow results.''
                              else str ''Found '' @ show_nat (length ms) @ str '' GIF''
                                     @ (if length ms = 1 then [] else str ''s'')
                                     @ str '' for **'' @ q @ str ''**''),
                      embeds = Some (map gif_embed ?shown),
                      components = Some (row_loop ?shown 0 []),
                      flags = Some 64\<rparr>),
              [CatalogGet (str ''https://gif.land/api'')])"
    unfolding buildGifPicker_def hdr by (simp add: EPHEMERAL_def)
  with len sub all show ?thesis by blast
qed

theorem picker_shows_capped_matches_witness:
  "search_query (search_command (Some ''cat'')) = str ''cat''
   \<and> fetchGifs (catalog (example_platform verify_all parse_fails
                           (Resolved 200 (Inr (numbered_gifs 3))))) = Inr (numbered_gifs 3)
   \<and> filter (matches_query
                (example_platform verify_all parse_fails (Resolved 200 (Inr (numbered_gifs 3))))
                (toLowerCase
                   (example_platform verify_all parse_fails
                      (Resolved 200 (Inr (numbered_gifs 3))))
                   (str ''cat''))) (numbered_gifs 3) = numbered_gifs 3
   \<and> (\<exists>shown.
         handleSlashCommand
             (example_platform verify_all parse_fails (Resolved 200 (Inr (numbered_gifs 3))))
             (search_command (Some ''cat'')) =
           (Inr (channel_message
                   \<lparr>content = Some (str ''Found 3 GIFs for **cat**''),
                    embeds = Some (map gif_embed shown),
                    components = Some (row_loop shown 0 []),
                    flags = Some 64\<rparr>),
            [CatalogGet (str ''https://gif.land/api'')])
         \<and> length shown = 3 \<and> mset shown = mset (numbered_gifs 3))"
proof -
  let ?pf = "example_platform verify_all parse_fails (Resolved 200 (Inr (numbered_gifs 3)))"
  have ne: "numbered_gifs 3 \<noteq> []" by (rule numbered_gifs_nonempty) simp
  have q: "str ''cat'' \<noteq> []" by (simp add: str_def)
  have f1: "search_query (search_command (Some ''cat'')) = str ''cat''"
    by (rule example_search_facts(1))
  have f2: "fetchGifs (catalog ?pf) = Inr (numbered_gifs 3)"
    by (rule example_search_facts(2))
  have f3: "filter (matches_query ?pf (toLowerCase ?pf (str ''cat''))) (numbered_gifs 3) =
            numbered_gifs 3"
    by (rule example_search_facts(3))
  have hdr: "(if 10 \<le> length (numbered_gifs 3)
              then str ''Showing 10 GIFs for **'' @ str ''cat'' @ str ''** '' @ em_dash
                     @ str '' try a more specific search to narrow results.''
              else str ''Found '' @ show_nat (length (numbered_gifs 3)) @ str '' GIF''
                     @ (if length (numbered_gifs 3) = 1 then [] else str ''s'')
                     @ str '' for **'' @ str ''cat'' @ str ''**'') =
             str ''Found 3 GIFs for **cat**''"
    by (simp add: length_numbered_gifs show_nat_3 str_def)
  from picker_shows_capped_matches [OF f1 q f2 f3 ne]
  obtain shown where
    run: "handleSlashCommand ?pf (search_command (Some ''cat'')) =
           (Inr (channel_message
                   \<lparr>content =
                      Some (if 10 \<le> length (numbered_gifs 3)
                            then str ''Showing 10 GIFs for **'' @ str ''cat'' @ str ''** '' @ em_dash
                                   @ str '' try a more specific search to narrow results.''
                            else str ''Found '' @ show_nat (length (numbered_gifs 3)) @ str '' GIF''
                                   @ (if length (numbered_gifs 3) = 1 then [] else str ''s'')
                                   @ str '' for **'' @ str ''cat'' @ str ''**''),
                    embeds = Some (map gif_embed shown),
                    components = Some (row_loop shown 0 []),
                    flags = Some 64\<rparr>),
            [CatalogGet (str ''https://gif.land/api'')])"
    and len: "length shown = min 10 (length (numbered_gifs 3))"
    and all: "length (numbered_gifs 3) \<le> 10 \<longrightarrow> mset shown = mset (numbered_gifs 3)"
    by blast
  from len have l3: "length shown = 3" by (simp add: length_numbered_gifs)
  from all have m3: "mset shown = mset (numbered_gifs 3)" by (simp add: length_numbered_gifs)
  from run have "handleSlashCommand ?pf (search_command (Some ''cat'')) =
           (Inr (channel_message
                   \<lparr>content = Some (str ''Found 3 GIFs for **cat**''),
                    embeds = Some (map gif_embed shown),
                    components = Some (row_loop shown 0 []),
                    flags = Some 64\<rparr>),
            [CatalogGet (str ''https://gif.land/api'')])"
    unfolding hdr .
  with l3 m3 f1 f2 f3 show ?thesis by blast
qed

text \<open>
  Against claim C4 as stated: with ten matches the header is the one that hints at
  narrowing the search, not \<open>Found 10 GIFs\<close>.
\<close>

theorem ten_matches_header_counterexample:
  "length (filter (matches_query
                    (example_platform verify_all parse_fails
                       (Resolved 200 (Inr (numbered_gifs 10))))
                    (toLowerCase
                       (example_platform verify_all parse_fails
                          (Resolved 200 (Inr (numbered_gifs 10))))
                       (str ''cat''))) (numbered_gifs 10)) = 10
   \<and> map_option content
        (reply_message
           (fst (handleSlashCommand
                   (example_platform verify_all parse_fails
                      (Resolved 200 (Inr (numbered_gifs 10))))
                   (search_command (Some ''cat''))))) =
       Some (Some (str ''Showing 10 GIFs for **cat** '' @ em_dash
                     @ str '' try a more specific search to narrow results.''))
   \<and> map_option content
        (reply_message
           (fst (handleSlashCommand
                   (example_platform verify_all parse_fails
                      (Resolved 200 (Inr (numbered_gifs 10))))
                   (search_command (Some ''cat''))))) \<noteq>
       Some (Some (str ''Found 10 GIFs for **cat**''))"
proof -
  let ?pf = "example_platform verify_all parse_fails (Resolved 200 (Inr (numbered_gifs 10)))"
  let ?shown = "take 10 (shuffled (Math_random ?pf) (numbered_gifs 10))"
  have ne: "numbered_gifs 10 \<noteq> []" by (rule numbered_gifs_nonempty) simp
  have q: "str ''cat'' \<noteq> []" by (simp add: str_def)
  have f3: "filter (matches_query ?pf (toLowerCase ?pf (str ''cat''))) (numbered_gifs 10) =
            numbered_gifs 10"
    by (rule example_search_facts(3))
  have run: "handleSlashCommand ?pf (search_command (Some ''cat'')) =
        (Inr (channel_message (buildGifPicker ?shown (str ''cat''))),
         [CatalogGet (str ''https://gif.land/api'')])"
    using search_path
            [OF example_search_facts(1) q example_search_facts(2) [of verify_all parse_fails 10]]
          ne
    by (simp add: f3)
  have len: "length ?shown = 10"
    by (simp add: length_shuffled length_numbered_gifs)
  have hdr: "headerText 10 (str ''cat'') =
             str ''Showing 10 GIFs for **cat** '' @ em_dash
               @ str '' try a more specific search to narrow results.''"
    by (simp add: headerText_def MAX_GIFS_SHOWN_def show_nat_10 str_def)
  have c: "map_option content
             (reply_message (fst (handleSlashCommand ?pf (search_command (Some ''cat''))))) =
           Some (Some (str ''Showing 10 GIFs for **cat** '' @ em_dash
                         @ str '' try a more specific search to narrow results.''))"
    unfolding run
    by (simp add: reply_message_channel buildGifPicker_def length_shuffled
        length_numbered_gifs hdr)
  have d: "str ''Showing 10 GIFs for **cat** '' @ em_dash
             @ str '' try a more specific search to narrow results.'' \<noteq>
           str ''Found 10 GIFs for **cat**''"
    by (simp add: str_def cu_def)
  from f3 have l: "length (filter (matches_query ?pf (toLowerCase ?pf (str ''cat'')))
                             (numbered_gifs 10)) = 10"
    by (simp add: length_numbered_gifs)
  from c d have e: "map_option content
             (reply_message (fst (handleSlashCommand ?pf (search_command (Some ''cat''))))) \<noteq>
           Some (Some (str ''Found 10 GIFs for **cat**''))"
    by (simp only: option.inject) blast
  from l c e show ?thesis by blast
qed

text \<open>
  Claim C8. Every reply of the command handler that carries components has at most
  five rows, each row has at most two buttons, there are at most ten buttons in all,
  and there is one embed per button.
\<close>

theorem picker_rows_bounded:
  assumes "handleSlashCommand pf i = (Inr r, eff)"
    and "body r = Json jr"
    and "response_data jr = Some m"
    and "components m = Some rows"
  shows "length rows \<le> 5
         \<and> (\<forall>row \<in> set rows. length (row_components row) \<le> 2)
         \<and> length (concat (map row_components rows)) \<le> 10
         \<and> (\<exists>es. embeds m = Some es \<and> length es = length (concat (map row_components rows)))"
proof (cases "fetchGifs (catalog pf)")
  case (Inl e)
  with assms show ?thesis
    by (auto simp: handleSlashCommand_def Let_def channel_message_def jsonResponse_def
        catalog_error_message_def)
next
  case (Inr gifs)
  show ?thesis
  proof (cases "search_query i = []")
    case True
    with Inr assms show ?thesis
      by (auto simp: handleSlashCommand_def Let_def channel_message_def jsonResponse_def
          buildSingleGifMessage_def split: sum.splits option.splits)
  next
    case False
    let ?ms = "filter (matches_query pf (toLowerCase pf (search_query i))) gifs"
    let ?shown = "take 10 (shuffled (Math_random pf) ?ms)"
    note sp = search_path [OF refl False Inr]
    show ?thesis
    proof (cases "?ms = []")
      case True
      with sp assms show ?thesis
        by (auto simp: channel_message_def jsonResponse_def no_results_message_def)
    next
      case ne: False
      from sp ne assms have m: "m = buildGifPicker ?shown (search_query i)"
        by (auto simp: channel_message_def jsonResponse_def)
      with assms have rows: "rows = row_loop ?shown 0 []"
        by (simp add: buildGifPicker_def)
      have len: "length ?shown \<le> 10" by simp
      from row_loop_rows [of ?shown 0]
      have r1: "length rows = (length ?shown + 1) div 2"
        and r2: "\<forall>row \<in> set rows. length (row_components row) \<le> 2"
        and r3: "concat (map row_components rows) = map gif_button ?shown"
        unfolding rows by simp_all
      from r1 len have "length rows \<le> 5" by arith
      moreover from r3 len have "length (concat (map row_components rows)) \<le> 10"
        by simp
      moreover from m r3
      have "\<exists>es. embeds m = Some es \<and> length es = length (concat (map row_components rows))"
        by (simp add: buildGifPicker_def)
      ultimately show ?thesis using r2 by blast
    qed
  qed
qed

theorem picker_rows_bounded_witness:
  "handleSlashCommand
     (example_platform verify_all parse_fails (Resolved 200 (Inr (numbered_gifs 3))))
     (search_command (Some ''cat'')) =
   (Inr (channel_message
           (buildGifPicker
              [example_gif ''cat1.gif'' None, example_gif ''cat2.gif'' None,
               example_gif ''cat0.gif'' None] (str ''cat''))),
    [CatalogGet (str ''https://gif.land/api'')])
   \<and> components (buildGifPicker
              [example_gif ''cat1.gif'' None, example_gif ''cat2.gif'' None,
               example_gif ''cat0.gif'' None] (str ''cat'')) =
     Some [\<lparr>row_type = 1,
            row_components = [gif_button (example_gif ''cat1.gif'' None),
                              gif_button (example_gif ''cat2.gif'' None)]\<rparr>,
           \<lparr>row_type = 1, row_components = [gif_button (example_gif ''cat0.gif'' None)]\<rparr>]
   \<and> length [\<lparr>row_type = 1,
            row_components = [gif_button (example_gif ''cat1.gif'' None),
                              gif_button (example_gif ''cat2.gif'' None)]\<rparr>,
           \<lparr>row_type = 1, row_components = [gif_button (example_gif ''cat0.gif'' None)]\<rparr>]
       \<le> (5 :: nat)
   \<and> (\<exists>es. embeds (buildGifPicker
              [example_gif ''cat1.gif'' None, example_gif ''cat2.gif'' None,
               example_gif ''cat0.gif'' None] (str ''cat'')) = Some es \<and> length es = 3)"
proof -
  let ?m = "buildGifPicker
              [example_gif ''cat1.gif'' None, example_gif ''cat2.gif'' None,
               example_gif ''cat0.gif'' None] (str ''cat'')"
  have b: "body (channel_message ?m) =
             Json \<lparr>response_type = CHANNEL_MESSAGE_WITH_SOURCE, response_data = Some ?m\<rparr>"
    by (simp add: channel_message_def jsonResponse_def)
  have d: "response_data \<lparr>response_type = CHANNEL_MESSAGE_WITH_SOURCE,
                           response_data = Some ?m\<rparr> = Some ?m"
    by simp
  from picker_rows_bounded [OF three_cats_run b d three_cats_rows]
  show ?thesis
    using three_cats_run three_cats_rows by (simp add: numeral_3_eq_3)
qed

text \<open>
  Claim C6. When the catalog call is rejected or resolves to a status outside 200..299,
  the command handler returns (it does not raise) a JSON response of status 200 that
  carries the fixed error text with the ephemeral flag 64, and it has made exactly one
  call to the catalog.
\<close>

theorem catalog_failure_reply:
  assumes "catalog pf = Rejected \<or>
           (\<exists>st parsed. catalog pf = Resolved st parsed \<and> (st < 200 \<or> 299 < st))"
  shows "handleSlashCommand pf i =
           (Inr \<lparr>status = 200, content_type = Some (str ''application/json''),
                 body = Json \<lparr>response_type = 4,
                              response_data =
                                Some \<lparr>content = Some (str ''Could not reach gif.land right now. Try again in a moment.''),
                                      embeds = None, components = None, flags = Some 64\<rparr>\<rparr>\<rparr>,
            [CatalogGet (str ''https://gif.land/api'')])"
proof -
  from assms obtain e where "fetchGifs (catalog pf) = Inl e"
    by (auto simp: fetchGifs_def response_ok_def)
  then show ?thesis
    by (simp add: handleSlashCommand_def Let_def channel_message_def jsonResponse_def
        catalog_error_message_def CHANNEL_MESSAGE_WITH_SOURCE_def EPHEMERAL_def SITE_URL_def
        str_def)
qed

theorem catalog_failure_reply_witness:
  "catalog (example_platform verify_all parse_fails (Resolved 500 (Inr []))) = Resolved 500 (Inr [])
   \<and> handleSlashCommand (example_platform verify_all parse_fails (Resolved 500 (Inr [])))
       (search_command (Some ''cat'')) =
     (Inr \<lparr>status = 200, content_type = Some (str ''application/json''),
           body = Json \<lparr>response_type = 4,
                        response_data =
                          Some \<lparr>content = Some (str ''Could not reach gif.land right now. Try again in a moment.''),
                                embeds = None, components = None, flags = Some 64\<rparr>\<rparr>\<rparr>,
      [CatalogGet (str ''https://gif.land/api'')])
   \<and> handleSlashCommand (example_platform verify_all parse_fails Rejected) plain_command =
     (Inr \<lparr>status = 200, content_type = Some (str ''application/json''),
           body = Json \<lparr>response_type = 4,
                        response_data =
                          Some \<lparr>content = Some (str ''Could not reach gif.land right now. Try again in a moment.''),
                                embeds = None, components = None, flags = Some 64\<rparr>\<rparr>\<rparr>,
      [CatalogGet (str ''https://gif.land/api'')])"
proof -
  have c1: "catalog (example_platform verify_all parse_fails (Resolved 500 (Inr []))) =
            Resolved 500 (Inr [])"
    by (simp add: example_platform_def)
  have c2: "catalog (example_platform verify_all parse_fails Rejected) = Rejected"
    by (simp add: example_platform_def)
  show ?thesis
    using c1 c2
      catalog_failure_reply
        [of "example_platform verify_all parse_fails (Resolved 500 (Inr []))"
            "search_command (Some ''cat'')"]
      catalog_failure_reply [of "example_platform verify_all parse_fails Rejected" plain_command]
    by simp
qed

subsection \<open>The button click handler\<close>

text \<open>
  Claim C9. A click whose identifier (the empty string when the interaction carries
  none) does not start with \<open>post:\<close> is answered by a message edit (response type 7)
  with the content \<open>Unknown action.\<close>, an empty list of embeds and an empty list of
  components; no follow-up call is made.
\<close>

theorem unknown_action_reply:
  assumes "\<not> prefix (str ''post:'') (clicked_custom_id i)"
  shows "handleButtonClick pf i env =
           (Inr \<lparr>status = 200, content_type = Some (str ''application/json''),
                 body = Json \<lparr>response_type = 7,
                              response_data =
                                Some \<lparr>content = Some (str ''Unknown action.''), embeds = Some [],
                                      components = Some [], flags = None\<rparr>\<rparr>\<rparr>,
            [])"
  using assms
  by (simp add: handleButtonClick_def startsWith_def jsonResponse_def UPDATE_MESSAGE_def
      unknown_action_message_def)

theorem unknown_action_reply_witness:
  "\<not> prefix (str ''post:'') (clicked_custom_id (button_click (str ''pick:a.gif''))) \<and>
   handleButtonClick (example_platform verify_all parse_fails Rejected)
       (button_click (str ''pick:a.gif'')) (example_env good_key) =
     (Inr \<lparr>status = 200, content_type = Some (str ''application/json''),
           body = Json \<lparr>response_type = 7,
                        response_data =
                          Some \<lparr>content = Some (str ''Unknown action.''), embeds = Some [],
                                components = Some [], flags = None\<rparr>\<rparr>\<rparr>,
      [])"
proof -
  have h: "\<not> prefix (str ''post:'') (clicked_custom_id (button_click (str ''pick:a.gif'')))"
    by (simp add: clicked_custom_id_def button_click_def str_def cu_def)
  from unknown_action_reply [OF h] h show ?thesis by simp
qed

text \<open>
  Claim C3 says that decoding the identifier of a button gives back the path and the
  tags for every pair. The identifier is the text \<open>post:path||tags\<close> cut to 100
  characters and it is split at \<open>||\<close>, so this holds when the text fits (path and tags
  have at most 93 characters together), the path followed by a bar contains no \<open>||\<close>,
  and the tags contain no \<open>||\<close>; empty and missing tags are included. Then the click
  confirms the path and posts, as follow-up, the embed of the very item the button was
  built from.
\<close>

theorem custom_id_round_trip:
  assumes "tg = (case tags g of None \<Rightarrow> [] | Some t \<Rightarrow> t)"
    and "length (url g) + length tg \<le> 93"
    and "\<not> includes_str (url g @ str ''|'') (str ''||'')"
    and "\<not> includes_str tg (str ''||'')"
    and "clicked_custom_id i = custom_id (gif_button g)"
  shows "decode_payload (drop (length (str ''post:'')) (custom_id (gif_button g))) = (url g, tg)
         \<and> handleButtonClick pf i env =
             (Inr (jsonResponse
                     \<lparr>response_type = 7,
                      response_data =
                        Some \<lparr>content = Some (str ''Posted **'' @ url g @ str ''**''),
                              embeds = Some [], components = Some [], flags = None\<rparr>\<rparr> 200),
              [FollowupPost
                 (str ''https://discord.com/api/v10/webhooks/'' @ DISCORD_APP_ID env @ str ''/'' @ token i)
                 \<lparr>content = None, embeds = Some [gif_embed g], components = None,
                  flags = None\<rparr>])"
proof -
  have enc: "custom_id (gif_button g) = str ''post:'' @ url g @ str ''||'' @ tg"
    using encode_custom_id_fits [of g] assms(1,2) by (simp add: gif_button_def)
  have dec: "decode_payload (url g @ str ''||'' @ tg) = (url g, tg)"
    by (rule decode_payload_joined [OF assms(3,4)])
  have d1: "decode_payload (drop (length (str ''post:'')) (custom_id (gif_button g))) = (url g, tg)"
    using dec by (simp add: enc)
  have pre: "startsWith (clicked_custom_id i) (str ''post:'')"
    by (simp add: assms(5) enc startsWith_def)
  have emb: "gif_embed \<lparr>id_gif = 0, url = url g, tags = Some tg, width = 0, height = 0\<rparr> =
             gif_embed g"
    unfolding assms(1) by (rule gif_embed_decoded)
  have "handleButtonClick pf i env =
             (Inr (jsonResponse
                     \<lparr>response_type = 7,
                      response_data =
                        Some \<lparr>content = Some (str ''Posted **'' @ url g @ str ''**''),
                              embeds = Some [], components = Some [], flags = None\<rparr>\<rparr> 200),
              [FollowupPost
                 (str ''https://discord.com/api/v10/webhooks/'' @ DISCORD_APP_ID env @ str ''/'' @ token i)
                 \<lparr>content = None, embeds = Some [gif_embed g], components = None,
                  flags = None\<rparr>])"
    using pre d1 emb
    by (simp add: handleButtonClick_def Let_def assms(5) buildSingleGifMessage_def
        UPDATE_MESSAGE_def)
  with d1 show ?thesis by blast
qed

theorem custom_id_round_trip_witness:
  "length (url (example_gif ''cat.gif'' (Some []))) + length ([] :: ustring) \<le> 93
   \<and> \<not> includes_str (url (example_gif ''cat.gif'' (Some [])) @ str ''|'') (str ''||'')
   \<and> \<not> includes_str [] (str ''||'')
   \<and> decode_payload
        (drop (length (str ''post:'')) (custom_id (gif_button (example_gif ''cat.gif'' (Some [])))))
       = (str ''cat.gif'', [])
   \<and> handleButtonClick (example_platform verify_all parse_fails Rejected)
        (button_click (custom_id (gif_button (example_gif ''cat.gif'' (Some [])))))
        (example_env good_key) =
       (Inr (jsonResponse
               \<lparr>response_type = 7,
                response_data =
                  Some \<lparr>content = Some (str ''Posted **cat.gif**''),
                        embeds = Some [], components = Some [], flags = None\<rparr>\<rparr> 200),
        [FollowupPost (str ''https://discord.com/api/v10/webhooks/app/tok'')
           \<lparr>content = None,
            embeds = Some [\<lparr>title = str ''cat.gif'', image_url = str ''https://gif.land/cat.gif''\<rparr>],
            components = None, flags = None\<rparr>])
   \<and> \<not> includes_str (str ''funny, cat'') (str ''||'')
   \<and> decode_payload
        (drop (length (str ''post:''))
           (custom_id (gif_button (example_gif ''cat.gif'' (Some ''funny, cat'')))))
       = (str ''cat.gif'', str ''funny, cat'')"
proof -
  let ?g = "example_gif ''cat.gif'' (Some [])"
  let ?f = "example_gif ''cat.gif'' (Some ''funny, cat'')"
  have u: "url ?g = str ''cat.gif''" and t: "tags ?g = Some []"
    by (simp_all add: example_gif_def gif_of_def str_def)
  have uf: "url ?f = str ''cat.gif''" and tf: "tags ?f = Some (str ''funny, cat'')"
    by (simp_all add: example_gif_def gif_of_def)
  have h1: "[] = (case tags ?g of None \<Rightarrow> [] | Some t \<Rightarrow> t)" by (simp add: t)
  have h2: "length (url ?g) + length ([] :: ustring) \<le> 93" by (simp add: u str_def)
  have h3: "\<not> includes_str (url ?g @ str ''|'') (str ''||'')"
    by (simp add: u str_def cu_def)
  have h4: "\<not> includes_str [] (str ''||'')" by (simp add: str_def)
  have h5: "clicked_custom_id (button_click (custom_id (gif_button ?g))) =
            custom_id (gif_button ?g)"
    by (rule clicked_example)
  have e: "gif_embed ?g = \<lparr>title = str ''cat.gif'', image_url = str ''https://gif.land/cat.gif''\<rparr>"
    by (simp add: gif_embed_def gif_title_def u t SITE_URL_def str_def)
  have k: "token (button_click (custom_id (gif_button ?g))) = str ''tok''"
    "DISCORD_APP_ID (example_env good_key) = str ''app''"
    by (simp_all add: button_click_def example_env_def)
  have w: "str ''https://discord.com/api/v10/webhooks/'' @ str ''app'' @ str ''/'' @ str ''tok'' =
           str ''https://discord.com/api/v10/webhooks/app/tok''"
    "str ''Posted **'' @ str ''cat.gif'' @ str ''**'' = str ''Posted **cat.gif**''"
    by (simp_all add: str_def)
  note first = custom_id_round_trip [OF h1 h2 h3 h4 h5,
      of "example_platform verify_all parse_fails Rejected" "example_env good_key"]
  from first have d: "decode_payload
        (drop (length (str ''post:'')) (custom_id (gif_button ?g))) = (str ''cat.gif'', [])"
    by (simp add: u)
  from first have r: "handleButtonClick (example_platform verify_all parse_fails Rejected)
        (button_click (custom_id (gif_button ?g))) (example_env good_key) =
       (Inr (jsonResponse
               \<lparr>response_type = 7,
                response_data =
                  Some \<lparr>content = Some (str ''Posted **cat.gif**''),
                        embeds = Some [], components = Some [], flags = None\<rparr>\<rparr> 200),
        [FollowupPost (str ''https://discord.com/api/v10/webhooks/app/tok'')
           \<lparr>content = None,
            embeds = Some [\<lparr>title = str ''cat.gif'', image_url = str ''https://gif.land/cat.gif''\<rparr>],
            components = None, flags = None\<rparr>])"
    by (simp add: u e k w)
  have g1: "str ''funny, cat'' = (case tags ?f of None \<Rightarrow> [] | Some t \<Rightarrow> t)"
    by (simp add: tf)
  have g2: "length (url ?f) + length (str ''funny, cat'') \<le> 93" by (simp add: uf str_def)
  have g3: "\<not> includes_str (url ?f @ str ''|'') (str ''||'')"
    by (simp add: uf str_def cu_def)
  have g4: "\<not> includes_str (str ''funny, cat'') (str ''||'')"
    by (simp add: str_def cu_def)
  have g5: "clicked_custom_id (button_click (custom_id (gif_button ?f))) =
            custom_id (gif_button ?f)"
    by (rule clicked_example)
  from custom_id_round_trip [OF g1 g2 g3 g4 g5,
      of "example_platform verify_all parse_fails Rejected" "example_env good_key"]
  have df: "decode_payload
        (drop (length (str ''post:'')) (custom_id (gif_button ?f))) =
       (str ''cat.gif'', str ''funny, cat'')"
    by (simp add: uf)
  from h2 h3 h4 d r g4 df show ?thesis by blast
qed

text \<open>
  Against claim C3 as stated: tags that contain the separator are cut at it. The pair
  \<open>(a.gif, x||y)\<close> comes back as \<open>(a.gif, x)\<close>.
\<close>

theorem custom_id_round_trip_counterexample:
  "decode_payload
     (drop (length (str ''post:'')) (custom_id (gif_button (example_gif ''a.gif'' (Some ''x||y'')))))
   = (str ''a.gif'', str ''x'')
   \<and> decode_payload
     (drop (length (str ''post:'')) (custom_id (gif_button (example_gif ''a.gif'' (Some ''x||y'')))))
   \<noteq> (url (example_gif ''a.gif'' (Some ''x||y'')), str ''x||y'')"
  by (simp add: gif_button_def encode_custom_id_def example_gif_def gif_of_def slice_str_def
      decode_payload_def split_str_def str_def cu_def)

end
